theory Spec2Isabelle
  imports Complex_Main
begin

section \<open>The diagnostic harness (class AudioCheck)\<close>

text \<open>
  JavaScript numbers are IEEE doubles. A finite double is modelled by the real number
  it denotes. Comparing two doubles, taking their maximum, sorting and indexing do not
  round, so they are the operations on the reals. A sum, a difference and a quotient
  are rounded: the averages and the echo level below take the rounding of the platform
  as a parameter, a function from the exact result to the double the operation returns.
  The percentages of the progress events are given unrounded, and a decimal literal
  is taken at its decimal value. Volumes are finite, so \<open>NaN\<close> and the infinities do
  not occur.
  A value that may be \<open>undefined\<close> or \<open>null\<close> is an \<open>option\<close>.
\<close>

subsection \<open>Data\<close>

text \<open>\<open>AudioCheckConfig\<close>: every option may be left out by the caller.\<close>

record AudioCheckConfig =
  echoTestDuration :: "real option"
  micTestDuration :: "real option"
  minMicLevel :: "real option"
  maxBackgroundNoise :: "real option"
  echoThreshold :: "real option"
  targetSampleRate :: "real option"

text \<open>\<open>Required<AudioCheckConfig>\<close>, the field \<open>this.config\<close>.\<close>

record RequiredConfig =
  cfg_echoTestDuration :: real
  cfg_micTestDuration :: real
  cfg_minMicLevel :: real
  cfg_maxBackgroundNoise :: real
  cfg_echoThreshold :: real
  cfg_targetSampleRate :: real

text \<open>\<open>a ?? b\<close>\<close>

definition nullish :: "'a option \<Rightarrow> 'a \<Rightarrow> 'a" where
  "nullish a b = (case a of None \<Rightarrow> b | Some x \<Rightarrow> x)"

text \<open>The defaults the constructor fills in.\<close>

definition default_config :: "AudioCheckConfig \<Rightarrow> RequiredConfig" where
  "default_config config =
     \<lparr> cfg_echoTestDuration = nullish (echoTestDuration config) 3,
       cfg_micTestDuration = nullish (micTestDuration config) 2,
       cfg_minMicLevel = nullish (minMicLevel config) 0.001,
       cfg_maxBackgroundNoise = nullish (maxBackgroundNoise config) 0.005,
       cfg_echoThreshold = nullish (echoThreshold config) 0.05,
       cfg_targetSampleRate = nullish (targetSampleRate config) 24000 \<rparr>"

record EchoTest =
  passed :: bool
  echoLevel :: real

record MicrophoneTest =
  level :: real
  noise :: real

text \<open>
  \<open>Partial<AudioTestResults>\<close>, the field \<open>this.results\<close>. The class never assigns
  \<open>timestamp\<close> or \<open>overallPassed\<close> there, so the two are left out.
\<close>

record PartialResults =
  res_sampleRate :: "real option"
  res_echoTest :: "EchoTest option"
  res_microphoneTest :: "MicrophoneTest option"

text \<open>
  The object \<open>getCompleteResults\<close> builds. Its fields are what the object holds at run
  time: the assertion \<open>x!\<close> is erased by the compiler, so a field read from an absent
  sub-result would be \<open>undefined\<close> (\<open>None\<close>).
\<close>

record AudioTestResults =
  timestamp :: real
  sampleRate :: "real option"
  echoTest :: "EchoTest option"
  microphoneTest :: "MicrophoneTest option"
  overallPassed :: bool

datatype stage = StInit | StSampleRate | StEchoTest | StMicTest | StComplete | StError

text \<open>
  \<open>AudioCheckProgress\<close>, without the message text (it only formats the numbers below).
\<close>

record AudioCheckProgress =
  pr_stage :: stage
  pr_progress :: real
  pr_results :: PartialResults

datatype node = MediaStreamSource | VolMeter | Oscillator | Gain

text \<open>A media stream is the list of its tracks; a track is named by a number.\<close>

type_synonym MediaStream = "nat list"

text \<open>
  The object state. \<open>ac_audioContext\<close> holds the context's sample rate, the only
  property of the context the class reads. \<open>ac_emitted\<close> collects, oldest first, the
  progress events passed to \<open>this.emit\<close>. \<open>ac_listener\<close> stands for the listeners
  registered on the object (the class extends \<open>EventEmitter\<close>, whose \<open>emit\<close> runs them
  at once and lets their exceptions through): \<open>ac_listener s i ev\<close> says that a listener
  raises when it is handed \<open>ev\<close> as event number \<open>i\<close> of this object.
\<close>

record AudioCheck =
  ac_audioContext :: "real option"
  ac_stream :: "MediaStream option"
  ac_source :: "node option"
  ac_volMeterWorklet :: "node option"
  ac_oscillator :: "node option"
  ac_gainNode :: "node option"
  ac_isRunning :: bool
  ac_config :: RequiredConfig
  ac_results :: PartialResults
  ac_volumeHistory :: "real list"
  ac_backgroundNoiseLevel :: real
  ac_emitted :: "AudioCheckProgress list"
  ac_listener :: "nat \<Rightarrow> AudioCheckProgress \<Rightarrow> bool"

text \<open>A new object has no listener.\<close>

definition new_AudioCheck :: "AudioCheckConfig \<Rightarrow> AudioCheck" where
  "new_AudioCheck config =
     \<lparr> ac_audioContext = None, ac_stream = None, ac_source = None,
       ac_volMeterWorklet = None, ac_oscillator = None, ac_gainNode = None,
       ac_isRunning = False,
       ac_config = default_config config,
       ac_results = \<lparr> res_sampleRate = None, res_echoTest = None, res_microphoneTest = None \<rparr>,
       ac_volumeHistory = [],
       ac_backgroundNoiseLevel = 0,
       ac_emitted = [],
       ac_listener = (\<lambda>i ev. False) \<rparr>"

datatype error =
  AlreadyRunning
  | NotInitialized
  | NotComplete
  | GetUserMediaNotSupported
  | WebAudioNotSupported
  | PlatformError
  | ListenerError

subsection \<open>The verdict\<close>

text \<open>
  \<open>emitProgress\<close> hands the event to the listeners: \<open>Inl\<close> is the state in which a
  listener raised, \<open>Inr\<close> the state after all of them returned.
\<close>

definition emitProgress :: "stage \<Rightarrow> real \<Rightarrow> AudioCheck \<Rightarrow> AudioCheck + AudioCheck" where
  "emitProgress st p s =
     (let ev = \<lparr> pr_stage = st, pr_progress = p, pr_results = ac_results s \<rparr>;
          s' = s\<lparr> ac_emitted := ac_emitted s @ [ev] \<rparr>
      in if ac_listener s (length (ac_emitted s)) ev then Inl s' else Inr s')"

definition isTestPassed :: "AudioCheck \<Rightarrow> bool" where
  "isTestPassed s =
     (nullish (res_sampleRate (ac_results s)) 0 \<ge> cfg_targetSampleRate (ac_config s) \<and>
      nullish (map_option passed (res_echoTest (ac_results s))) False \<and>
      nullish (map_option level (res_microphoneTest (ac_results s))) 0
        \<ge> cfg_minMicLevel (ac_config s) \<and>
      nullish (map_option noise (res_microphoneTest (ac_results s))) 1
        < cfg_maxBackgroundNoise (ac_config s))"

text \<open>
  \<open>isComplete\<close> tests truthiness: a sample rate of \<open>0\<close> counts as missing, an object
  counts as present.
\<close>

definition isComplete :: "AudioCheck \<Rightarrow> bool" where
  "isComplete s =
     ((case res_sampleRate (ac_results s) of None \<Rightarrow> False | Some r \<Rightarrow> r \<noteq> 0) \<and>
      res_echoTest (ac_results s) \<noteq> None \<and>
      res_microphoneTest (ac_results s) \<noteq> None)"

text \<open>\<open>now\<close> is the value of \<open>Date.now()\<close>.\<close>

definition getCompleteResults :: "real \<Rightarrow> AudioCheck \<Rightarrow> error + AudioTestResults" where
  "getCompleteResults now s =
     (if \<not> isComplete s then Inl NotComplete
      else Inr \<lparr> timestamp = now,
                 sampleRate = res_sampleRate (ac_results s),
                 echoTest = res_echoTest (ac_results s),
                 microphoneTest = res_microphoneTest (ac_results s),
                 overallPassed = isTestPassed s \<rparr>)"

subsection \<open>Sample rate\<close>

text \<open>
  What \<open>new AudioContext({ sampleRate: rate })\<close> followed by \<open>close()\<close> does on the
  platform: either one of the two raises, or the context was opened and closed and
  reported the given realized rate.
\<close>

datatype probe_attempt = Threw | Realized real

definition testRates :: "real list" where
  "testRates = [96000, 88200, 48000, 44100, 24000, 22050, 16000, 8000]"

text \<open>The \<open>for\<close> loop of \<open>getMaxSupportedSampleRate\<close>; \<open>None\<close> when it falls through.\<close>

fun probe_rates :: "(real \<Rightarrow> probe_attempt) \<Rightarrow> real list \<Rightarrow> real option" where
  "probe_rates new_context [] = None"
| "probe_rates new_context (rate # rates) =
     (case new_context rate of
        Threw \<Rightarrow> probe_rates new_context rates
      | Realized actualRate \<Rightarrow>
          if \<bar>actualRate - rate\<bar> < 1 then Some rate
          else probe_rates new_context rates)"

definition getMaxSupportedSampleRate :: "(real \<Rightarrow> probe_attempt) \<Rightarrow> AudioCheck \<Rightarrow> real" where
  "getMaxSupportedSampleRate new_context s =
     (case probe_rates new_context testRates of
        Some rate \<Rightarrow> rate
      | None \<Rightarrow>
          (case ac_audioContext s of
             None \<Rightarrow> 24000
           | Some r \<Rightarrow> if r = 0 then 24000 else r))"

definition set_sampleRate :: "real \<Rightarrow> AudioCheck \<Rightarrow> AudioCheck" where
  "set_sampleRate r s = s\<lparr> ac_results := (ac_results s)\<lparr> res_sampleRate := Some r \<rparr> \<rparr>"

text \<open>\<open>getSampleRate\<close> has no \<open>try\<close>: what a listener raises goes to the caller.\<close>

definition getSampleRate ::
  "(real \<Rightarrow> probe_attempt) \<Rightarrow> AudioCheck \<Rightarrow> (error + real) \<times> AudioCheck" where
  "getSampleRate new_context s =
     (case ac_audioContext s of
        None \<Rightarrow> (Inl NotInitialized, s)
      | Some rate \<Rightarrow>
          (case emitProgress StSampleRate 0 (s\<lparr> ac_isRunning := True \<rparr>) of
             Inl s1 \<Rightarrow> (Inl ListenerError, s1)
           | Inr s1 \<Rightarrow>
               (let s2 = set_sampleRate rate s1;
                    maxSupportedRate = getMaxSupportedSampleRate new_context s2
                in case emitProgress StSampleRate 100 s2 of
                     Inl s3 \<Rightarrow> (Inl ListenerError, s3)
                   | Inr s3 \<Rightarrow> (Inr rate, s3\<lparr> ac_isRunning := False \<rparr>))))"

subsection \<open>Timed waits\<close>

text \<open>
  Both tests wait in a loop \<open>for (let i = 0; i < duration; i++)\<close> that emits one
  progress event per round and then waits a second; \<open>pct i\<close> is the percentage
  reported in round \<open>i\<close>. \<open>Inl (i, s)\<close>: a listener raised in round \<open>i\<close>, in state \<open>s\<close>.
\<close>

function timed_loop ::
  "real \<Rightarrow> stage \<Rightarrow> (nat \<Rightarrow> real) \<Rightarrow> nat \<Rightarrow> AudioCheck \<Rightarrow> (nat \<times> AudioCheck) + AudioCheck" where
  "timed_loop duration st pct i s =
     (if real i < duration
      then (case emitProgress st (pct i) s of
              Inl s' \<Rightarrow> Inl (i, s')
            | Inr s' \<Rightarrow> timed_loop duration st pct (Suc i) s')
      else Inr s)"
  by pat_completeness auto
termination
  by (relation "measure (\<lambda>(duration, st, pct, i, s). nat \<lceil>duration\<rceil> - i)") (auto, linarith)

text \<open>
  \<open>vs.length > 0 ? vs.reduce((a, b) => a + b, 0) / vs.length : 0\<close>, every sum and
  the quotient rounded by \<open>rnd\<close>.
\<close>

definition average :: "(real \<Rightarrow> real) \<Rightarrow> real list \<Rightarrow> real" where
  "average rnd vs =
     (if length vs > 0
      then rnd (foldl (\<lambda>a b. rnd (a + b)) 0 vs / real (length vs))
      else 0)"

text \<open>
  The volume handler is installed only when the metering node exists; without it no
  volume is collected, whatever the meter would have reported.
\<close>

definition collected :: "AudioCheck \<Rightarrow> real list \<Rightarrow> real list" where
  "collected s vols = (if ac_volMeterWorklet s = None then [] else vols)"

subsection \<open>Echo test\<close>

text \<open>The platform calls of the echo test's \<open>try\<close> block that may raise.\<close>

datatype echo_step =
  MeasureBaseline | CreateOscillator | CreateGain | ConfigureTone | InstallHandler
  | StartTone | StopTone | DisconnectTone

text \<open>
  What the platform does during one echo test: the volumes the meter reports during
  the baseline second and while the tone plays, the platform call that raises, if one
  does, and how the platform rounds a sum, a difference or a quotient.
\<close>

record echo_env =
  noiseVolumes :: "real list"
  echoVolumes :: "real list"
  echo_raise :: "echo_step option"
  echo_round :: "real \<Rightarrow> real"

definition measureBackgroundNoise :: "(real \<Rightarrow> real) \<Rightarrow> real list \<Rightarrow> AudioCheck \<Rightarrow> AudioCheck" where
  "measureBackgroundNoise rnd vols s =
     s\<lparr> ac_backgroundNoiseLevel := average rnd (collected s vols) \<rparr>"

definition set_echoTest :: "EchoTest \<Rightarrow> AudioCheck \<Rightarrow> AudioCheck" where
  "set_echoTest r s = s\<lparr> ac_results := (ac_results s)\<lparr> res_echoTest := Some r \<rparr> \<rparr>"

text \<open>
  The \<open>try\<close> block: \<open>Inl\<close> is the state in which a platform call or a listener raised.
  The result is stored before the last progress event is emitted.
\<close>

definition echo_body :: "echo_env \<Rightarrow> AudioCheck \<Rightarrow> AudioCheck + (EchoTest \<times> AudioCheck)" where
  "echo_body env s0 =
     (case emitProgress StEchoTest 10 s0 of
        Inl sa \<Rightarrow> Inl sa
      | Inr sa \<Rightarrow>
     if echo_raise env = Some MeasureBaseline then Inl sa else
     let s1 = measureBackgroundNoise (echo_round env) (noiseVolumes env) sa in
     if echo_raise env = Some CreateOscillator then Inl s1 else
     let s2 = s1\<lparr> ac_oscillator := Some Oscillator \<rparr> in
     if echo_raise env = Some CreateGain then Inl s2 else
     let s3 = s2\<lparr> ac_gainNode := Some Gain \<rparr> in
     if echo_raise env = Some ConfigureTone \<or> echo_raise env = Some InstallHandler \<or>
        echo_raise env = Some StartTone then Inl s3 else
     (case emitProgress StEchoTest 30 s3 of
        Inl sb \<Rightarrow> Inl sb
      | Inr sb \<Rightarrow>
     let d = cfg_echoTestDuration (ac_config sb) in
     (case timed_loop d StEchoTest (\<lambda>i. 30 + (real i / d) * 60) 0 sb of
        Inl (i, s4) \<Rightarrow> Inl s4
      | Inr s4 \<Rightarrow>
     if echo_raise env = Some StopTone \<or> echo_raise env = Some DisconnectTone then Inl s4 else
     let s5 = s4\<lparr> ac_oscillator := None, ac_gainNode := None \<rparr>;
         avgEchoVolume = average (echo_round env) (collected s5 (echoVolumes env));
         lvl = max 0 (echo_round env (avgEchoVolume - ac_backgroundNoiseLevel s5));
         echoPassed = (lvl < cfg_echoThreshold (ac_config s5));
         r = \<lparr> passed = echoPassed, echoLevel = lvl \<rparr>;
         s6 = set_echoTest r s5
     in (case emitProgress StEchoTest 100 s6 of
           Inl s7 \<Rightarrow> Inl s7
         | Inr s7 \<Rightarrow> Inr (r, s7\<lparr> ac_isRunning := False \<rparr>)))))"

text \<open>
  The first progress event is emitted before the \<open>try\<close>, and the \<open>catch\<close> block emits
  one itself: what a listener raises there goes to the caller.
\<close>

definition runEchoTest :: "echo_env \<Rightarrow> AudioCheck \<Rightarrow> (error + EchoTest) \<times> AudioCheck" where
  "runEchoTest env s =
     (if ac_audioContext s = None \<or> ac_source s = None then (Inl NotInitialized, s)
      else
        (case emitProgress StEchoTest 0 (s\<lparr> ac_isRunning := True \<rparr>) of
           Inl s0 \<Rightarrow> (Inl ListenerError, s0)
         | Inr s0 \<Rightarrow>
             (case echo_body env s0 of
                Inr (r, s') \<Rightarrow> (Inr r, s')
              | Inl s' \<Rightarrow>
                  (case emitProgress StError 0 s' of
                     Inl s'' \<Rightarrow> (Inl ListenerError, s'')
                   | Inr s'' \<Rightarrow>
                       (Inr \<lparr> passed = False, echoLevel = 1 \<rparr>,
                        s''\<lparr> ac_isRunning := False \<rparr>)))))"

subsection \<open>Microphone test\<close>

text \<open>
  What the platform does during one microphone test: the volumes the meter reports
  during the measurement window, in order; how many of them have been reported when
  round \<open>i\<close> of the wait loop begins; and whether installing the volume handler, the one
  platform call of the \<open>try\<close> block, raises.
\<close>

record mic_env =
  micVolumes :: "real list"
  mic_arrived :: "nat \<Rightarrow> nat"
  mic_raise :: bool

text \<open>\<open>xs[i]\<close>: \<open>undefined\<close> out of range.\<close>

definition js_index :: "'a list \<Rightarrow> nat \<Rightarrow> 'a option" where
  "js_index xs i = (if i < length xs then Some (xs ! i) else None)"

text \<open>\<open>v || 0\<close> on a number or \<open>undefined\<close>.\<close>

definition or_zero :: "real option \<Rightarrow> real" where
  "or_zero v = (case v of None \<Rightarrow> 0 | Some x \<Rightarrow> if x = 0 then 0 else x)"

text \<open>\<open>sortedVolumes[Math.floor(sortedVolumes.length * q)] || 0\<close>\<close>

definition percentile :: "real list \<Rightarrow> real \<Rightarrow> real" where
  "percentile sortedVolumes q =
     or_zero (js_index sortedVolumes (nat \<lfloor>real (length sortedVolumes) * q\<rfloor>))"

definition set_microphoneTest :: "MicrophoneTest \<Rightarrow> AudioCheck \<Rightarrow> AudioCheck" where
  "set_microphoneTest r s = s\<lparr> ac_results := (ac_results s)\<lparr> res_microphoneTest := Some r \<rparr> \<rparr>"

text \<open>
  The \<open>try\<close> block: \<open>Inl\<close> is the state in which the handler or a listener raised. The
  handler pushes the volumes while the loop waits, so a listener that raises in round
  \<open>i\<close> finds the volumes reported until then in the history. The result is stored
  before the last progress event is emitted.
\<close>

definition mic_body :: "mic_env \<Rightarrow> AudioCheck \<Rightarrow> AudioCheck + (MicrophoneTest \<times> AudioCheck)" where
  "mic_body env s0 =
     (let s1 = s0\<lparr> ac_volumeHistory := [] \<rparr> in
      if mic_raise env then Inl s1 else
      let d = cfg_micTestDuration (ac_config s1);
          h = collected s1 (micVolumes env) in
      (case timed_loop d StMicTest (\<lambda>i. (real i / d) * 90) 0 s1 of
         Inl (i, s2) \<Rightarrow> Inl (s2\<lparr> ac_volumeHistory := take (mic_arrived env i) h \<rparr>)
       | Inr s2 \<Rightarrow>
      let s3 = s2\<lparr> ac_volumeHistory := ac_volumeHistory s2 @ h \<rparr>;
          sortedVolumes = sort (ac_volumeHistory s3);
          percentile95 = percentile sortedVolumes 0.95;
          percentile10 = percentile sortedVolumes 0.10;
          r = \<lparr> level = percentile95, noise = percentile10 \<rparr>;
          s4 = set_microphoneTest r s3
      in (case emitProgress StMicTest 100 s4 of
            Inl s5 \<Rightarrow> Inl s5
          | Inr s5 \<Rightarrow> Inr (r, s5\<lparr> ac_isRunning := False \<rparr>))))"

definition runMicTest :: "mic_env \<Rightarrow> AudioCheck \<Rightarrow> (error + MicrophoneTest) \<times> AudioCheck" where
  "runMicTest env s =
     (if ac_audioContext s = None \<or> ac_source s = None then (Inl NotInitialized, s)
      else
        (case emitProgress StMicTest 0 (s\<lparr> ac_isRunning := True \<rparr>) of
           Inl s0 \<Rightarrow> (Inl ListenerError, s0)
         | Inr s0 \<Rightarrow>
             (case mic_body env s0 of
                Inr (r, s') \<Rightarrow> (Inr r, s')
              | Inl s' \<Rightarrow>
                  (case emitProgress StError 0 s' of
                     Inl s'' \<Rightarrow> (Inl ListenerError, s'')
                   | Inr s'' \<Rightarrow>
                       (Inr \<lparr> level = 0, noise = 1 \<rparr>,
                        s''\<lparr> ac_isRunning := False \<rparr>)))))"

subsection \<open>Cleanup\<close>

text \<open>
  \<open>cleanup\<close> returns the calls it makes on the platform's objects, in order, together
  with the new object state. \<open>stop_raises\<close> says whether \<open>oscillator.stop()\<close> raises
  (the code expects that it may, and catches it); the \<open>disconnect\<close> that follows it is
  then skipped. The other calls, \<open>disconnect()\<close> without arguments and \<open>track.stop()\<close>,
  do not raise on the platform. \<open>cleanup\<close> emits no event.
\<close>

datatype call = Stop node | Disconnect node | TrackStop nat

definition cleanup :: "bool \<Rightarrow> AudioCheck \<Rightarrow> call list \<times> AudioCheck" where
  "cleanup stop_raises s =
     (let c1 = (case ac_oscillator s of
                  None \<Rightarrow> []
                | Some n \<Rightarrow> if stop_raises then [Stop n] else [Stop n, Disconnect n]);
          c2 = (case ac_gainNode s of None \<Rightarrow> [] | Some n \<Rightarrow> [Disconnect n]);
          c3 = (case ac_volMeterWorklet s of None \<Rightarrow> [] | Some n \<Rightarrow> [Disconnect n]);
          c4 = (case ac_source s of None \<Rightarrow> [] | Some n \<Rightarrow> [Disconnect n]);
          c5 = (case ac_stream s of None \<Rightarrow> [] | Some tracks \<Rightarrow> map TrackStop tracks)
      in (c1 @ c2 @ c3 @ c4 @ c5,
          s\<lparr> ac_isRunning := False, ac_oscillator := None, ac_gainNode := None,
             ac_volMeterWorklet := None, ac_source := None, ac_stream := None,
             ac_audioContext := None \<rparr>))"

subsection \<open>Initialisation\<close>

text \<open>The checks and platform calls of \<open>init\<close>'s \<open>try\<close> block that may raise.\<close>

datatype init_step =
  CheckGetUserMedia | CheckWebAudio | OpenContext | GetUserMedia | CreateSource
  | AddModule | ConnectMeter

record init_env =
  init_raise :: "init_step option"
  context_sampleRate :: real
  media_tracks :: MediaStream

text \<open>\<open>setupVolumeMeter\<close>: \<open>Inl\<close> is the state in which a call raised.\<close>

definition setupVolumeMeter :: "init_env \<Rightarrow> AudioCheck \<Rightarrow> AudioCheck + AudioCheck" where
  "setupVolumeMeter env s =
     (if ac_audioContext s = None \<or> ac_source s = None then Inr s
      else if init_raise env = Some AddModule then Inl s
      else
        (let s1 = s\<lparr> ac_volMeterWorklet := Some VolMeter \<rparr> in
         if init_raise env = Some ConnectMeter then Inl s1 else Inr s1))"

text \<open>The \<open>try\<close> block: \<open>Inl\<close> is the error raised and the state it was raised in.\<close>

definition init_body :: "init_env \<Rightarrow> AudioCheck \<Rightarrow> (error \<times> AudioCheck) + AudioCheck" where
  "init_body env s0 =
     (if init_raise env = Some CheckGetUserMedia then Inl (GetUserMediaNotSupported, s0) else
      if init_raise env = Some CheckWebAudio then Inl (WebAudioNotSupported, s0) else
      if init_raise env = Some OpenContext then Inl (PlatformError, s0) else
      let s1 = s0\<lparr> ac_audioContext := Some (context_sampleRate env) \<rparr> in
      if init_raise env = Some GetUserMedia then Inl (PlatformError, s1) else
      let s2 = s1\<lparr> ac_stream := Some (media_tracks env) \<rparr> in
      if init_raise env = Some CreateSource then Inl (PlatformError, s2) else
      let s3 = s2\<lparr> ac_source := Some MediaStreamSource \<rparr> in
      (case setupVolumeMeter env s3 of
         Inl s4 \<Rightarrow> Inl (PlatformError, s4)
       | Inr s4 \<Rightarrow>
           (case emitProgress StInit 100 s4 of
              Inl s5 \<Rightarrow> Inl (ListenerError, s5)
            | Inr s5 \<Rightarrow> Inr (s5\<lparr> ac_isRunning := False \<rparr>))))"

text \<open>
  The first progress event is emitted before the \<open>try\<close>; the \<open>catch\<close> block emits the
  error event, cleans up and raises the error again.
\<close>

definition init :: "bool \<Rightarrow> init_env \<Rightarrow> AudioCheck \<Rightarrow> (error + unit) \<times> AudioCheck" where
  "init stop_raises env s =
     (if ac_isRunning s then (Inl AlreadyRunning, s)
      else
        (case emitProgress StInit 0 (s\<lparr> ac_isRunning := True \<rparr>) of
           Inl s0 \<Rightarrow> (Inl ListenerError, s0)
         | Inr s0 \<Rightarrow>
             (case init_body env s0 of
                Inr s' \<Rightarrow> (Inr (), s')
              | Inl (e, s') \<Rightarrow>
                  (case emitProgress StError 0 s' of
                     Inl s'' \<Rightarrow> (Inl ListenerError, s'')
                   | Inr s'' \<Rightarrow> (Inl e, snd (cleanup stop_raises s''))))))"

subsection \<open>The full suite\<close>

record run_env =
  env_init :: init_env
  env_new_context :: "real \<Rightarrow> probe_attempt"
  env_echo :: echo_env
  env_mic :: mic_env
  env_stop_raises :: bool
  env_now :: real

text \<open>The \<open>try\<close> block of \<open>runAllTests\<close>.\<close>

definition run_tests :: "run_env \<Rightarrow> AudioCheck \<Rightarrow> (error + AudioTestResults) \<times> AudioCheck" where
  "run_tests env s =
     (case getSampleRate (env_new_context env) s of
        (Inl e, s1) \<Rightarrow> (Inl e, s1)
      | (Inr rate, s1) \<Rightarrow>
     (case runEchoTest (env_echo env) s1 of
        (Inl e, s2) \<Rightarrow> (Inl e, s2)
      | (Inr echo, s2) \<Rightarrow>
     (case runMicTest (env_mic env) s2 of
        (Inl e, s3) \<Rightarrow> (Inl e, s3)
      | (Inr mic, s3) \<Rightarrow>
          (let overall = isTestPassed s3
           in case emitProgress StComplete 100 s3 of
                Inl s4 \<Rightarrow> (Inl ListenerError, s4)
              | Inr s4 \<Rightarrow> (getCompleteResults (env_now env) s4, s4)))))"

definition runAllTests :: "run_env \<Rightarrow> AudioCheck \<Rightarrow> (error + AudioTestResults) \<times> AudioCheck" where
  "runAllTests env s =
     (case init (env_stop_raises env) (env_init env) s of
        (Inl e, s1) \<Rightarrow> (Inl e, s1)
      | (Inr u, s1) \<Rightarrow>
          (case run_tests env s1 of
             (r, s2) \<Rightarrow> (r, snd (cleanup (env_stop_raises env) s2))))"

section \<open>The capture pipeline (class AudioRecorder)\<close>

text \<open>
  \<open>start\<close> is asynchronous: it suspends at four \<open>await\<close>s, and \<open>stop\<close> or another
  \<open>start\<close> may run while it is suspended. The model is a transition system on the
  recorder object, its promises, the suspended executors and a device that counts what
  it hands out.
\<close>

datatype pstate = Pending | Fulfilled | Rejected

text \<open>
  A promise stored in \<open>this.starting\<close>: its state and the number of \<open>handleStop\<close>
  reactions \<open>stop\<close> has registered on it with \<open>then\<close>.
\<close>

record promise =
  p_state :: pstate
  p_then :: nat

text \<open>The \<open>await\<close> at which an executor is suspended.\<close>

datatype await = AwaitUserMedia | AwaitContext | AwaitRecorderModule | AwaitVuModule

text \<open>
  The recorder's fields. A stream is named by the number the device gave it; every
  stream of this device has one track. \<open>rec_starting\<close> names a promise by its index
  in \<open>w_promises\<close>.
\<close>

record AudioRecorder =
  rec_stream :: "nat option"
  rec_audioContext :: "unit option"
  rec_source :: "nat option"
  rec_recording :: bool
  rec_recordingWorklet :: "unit option"
  rec_vuWorklet :: "unit option"
  rec_starting :: "nat option"

record world =
  w_recorder :: AudioRecorder
  w_promises :: "promise list"
  w_suspended :: "(nat \<times> await) list"
  w_mediaDevices :: bool
  w_requests :: nat
  w_opens :: nat
  w_closes :: nat
  w_live :: "nat list"

definition new_AudioRecorder :: AudioRecorder where
  "new_AudioRecorder =
     \<lparr> rec_stream = None, rec_audioContext = None, rec_source = None,
       rec_recording = False, rec_recordingWorklet = None, rec_vuWorklet = None,
       rec_starting = None \<rparr>"

definition new_world :: "bool \<Rightarrow> world" where
  "new_world has_mediaDevices =
     \<lparr> w_recorder = new_AudioRecorder, w_promises = [], w_suspended = [],
       w_mediaDevices = has_mediaDevices,
       w_requests = 0, w_opens = 0, w_closes = 0, w_live = [] \<rparr>"

text \<open>\<open>track.stop()\<close> on every track of a stream; stopping a stopped track does nothing.\<close>

definition stop_tracks :: "nat \<Rightarrow> world \<Rightarrow> world" where
  "stop_tracks h w =
     (if h \<in> set (w_live w)
      then w\<lparr> w_live := removeAll h (w_live w), w_closes := Suc (w_closes w) \<rparr>
      else w)"

text \<open>The closure \<open>handleStop\<close> of \<open>stop\<close>.\<close>

definition handleStop :: "world \<Rightarrow> world" where
  "handleStop w =
     (let w1 = (case rec_stream (w_recorder w) of None \<Rightarrow> w | Some h \<Rightarrow> stop_tracks h w)
      in w1\<lparr> w_recorder := (w_recorder w1)
               \<lparr> rec_stream := None, rec_recordingWorklet := None, rec_vuWorklet := None,
                 rec_recording := False \<rparr> \<rparr>)"

definition set_pstate :: "nat \<Rightarrow> pstate \<Rightarrow> world \<Rightarrow> world" where
  "set_pstate p st w =
     (if p < length (w_promises w)
      then w\<lparr> w_promises := (w_promises w)[p := (w_promises w ! p)\<lparr> p_state := st \<rparr>] \<rparr>
      else w)"

definition clear_starting :: "world \<Rightarrow> world" where
  "clear_starting w = w\<lparr> w_recorder := (w_recorder w)\<lparr> rec_starting := None \<rparr> \<rparr>"

text \<open>
  \<open>resolve(); this.starting = null\<close>, and then the reactions registered by \<open>stop\<close>,
  which run as soon as the executor has returned.
\<close>

definition resolve :: "nat \<Rightarrow> world \<Rightarrow> world" where
  "resolve p w =
     (let n = (if p < length (w_promises w) then p_then (w_promises w ! p) else 0)
      in (handleStop ^^ n) (clear_starting (set_pstate p Fulfilled w)))"

text \<open>
  \<open>reject(error); this.starting = null\<close>. \<open>stop\<close> registered no rejection handler, so
  nothing else runs.
\<close>

definition reject :: "nat \<Rightarrow> world \<Rightarrow> world" where
  "reject p w = clear_starting (set_pstate p Rejected w)"

text \<open>
  \<open>start()\<close> up to its first \<open>await\<close>. Without \<open>navigator.mediaDevices\<close> it raises and
  changes nothing.
\<close>

definition start :: "world \<Rightarrow> world" where
  "start w =
     (if \<not> w_mediaDevices w then w
      else
        (let p = length (w_promises w) in
         w\<lparr> w_promises := w_promises w @ [\<lparr> p_state = Pending, p_then = 0 \<rparr>],
            w_suspended := w_suspended w @ [(p, AwaitUserMedia)],
            w_requests := Suc (w_requests w),
            w_recorder := (w_recorder w)\<lparr> rec_starting := Some p \<rparr> \<rparr>))"

text \<open>\<open>this.starting.then(handleStop)\<close>\<close>

definition then_handleStop :: "nat \<Rightarrow> world \<Rightarrow> world" where
  "then_handleStop p w =
     (if p < length (w_promises w)
      then
        (case p_state (w_promises w ! p) of
           Pending \<Rightarrow>
             w\<lparr> w_promises := (w_promises w)
                  [p := (w_promises w ! p)\<lparr> p_then := Suc (p_then (w_promises w ! p)) \<rparr>] \<rparr>
         | Fulfilled \<Rightarrow> handleStop w
         | Rejected \<Rightarrow> w)
      else w)"

definition stop :: "world \<Rightarrow> world" where
  "stop w =
     (case rec_starting (w_recorder w) of
        Some p \<Rightarrow> then_handleStop p w
      | None \<Rightarrow> handleStop w)"

text \<open>
  The executor of promise \<open>p\<close> resumes after the \<open>await\<close> it was suspended at, which
  succeeded (\<open>ok\<close>) or raised, and runs to its next \<open>await\<close> or to its end.
\<close>

definition suspend :: "nat \<Rightarrow> await \<Rightarrow> world \<Rightarrow> world" where
  "suspend p a w = w\<lparr> w_suspended := w_suspended w @ [(p, a)] \<rparr>"

definition continue_start :: "nat \<Rightarrow> await \<Rightarrow> world \<Rightarrow> world" where
  "continue_start p a w =
     (case a of
        AwaitUserMedia \<Rightarrow>
          (let h = w_opens w in
           suspend p AwaitContext
             (w\<lparr> w_opens := Suc (w_opens w), w_live := w_live w @ [h],
                 w_recorder := (w_recorder w)\<lparr> rec_stream := Some h \<rparr> \<rparr>))
      | AwaitContext \<Rightarrow>
          (let w1 = w\<lparr> w_recorder := (w_recorder w)\<lparr> rec_audioContext := Some () \<rparr> \<rparr> in
           case rec_stream (w_recorder w1) of
             None \<Rightarrow> reject p w1
           | Some h \<Rightarrow>
               suspend p AwaitRecorderModule
                 (w1\<lparr> w_recorder := (w_recorder w1)\<lparr> rec_source := Some h \<rparr> \<rparr>))
      | AwaitRecorderModule \<Rightarrow>
          suspend p AwaitVuModule
            (w\<lparr> w_recorder := (w_recorder w)\<lparr> rec_recordingWorklet := Some () \<rparr> \<rparr>)
      | AwaitVuModule \<Rightarrow>
          resolve p
            (w\<lparr> w_recorder := (w_recorder w)
                  \<lparr> rec_vuWorklet := Some (), rec_recording := True \<rparr> \<rparr>))"

definition resume :: "nat \<Rightarrow> bool \<Rightarrow> world \<Rightarrow> world" where
  "resume p ok w =
     (case map_of (w_suspended w) p of
        None \<Rightarrow> w
      | Some a \<Rightarrow>
          (let w1 = w\<lparr> w_suspended := filter (\<lambda>(q, b). q \<noteq> p) (w_suspended w) \<rparr> in
           if ok then continue_start p a w1 else reject p w1))"

datatype event = CallStart | CallStop | Resume nat bool

fun step :: "event \<Rightarrow> world \<Rightarrow> world" where
  "step CallStart w = start w"
| "step CallStop w = stop w"
| "step (Resume p ok) w = resume p ok w"

definition run :: "event list \<Rightarrow> world \<Rightarrow> world" where
  "run evs w = fold step evs w"

section \<open>Double arithmetic\<close>

text \<open>
  The rounding of IEEE binary64 arithmetic: to the nearest double, ties to the one with
  an even significand. \<open>round_even\<close> rounds a real to the nearest integer, ties to
  even; \<open>round_double\<close> scales by the unit in the last place at the result's exponent
  (53 significant bits; the exponent is not below the smallest one, so results near
  \<open>0\<close> are subnormal). Results too large for a double are outside the model.
\<close>

definition round_even :: "real \<Rightarrow> int" where
  "round_even y =
     (let f = \<lfloor>y\<rfloor>; r = y - of_int f
      in if r < 1 / 2 then f else if 1 / 2 < r then f + 1 else if even f then f else f + 1)"

definition round_double :: "real \<Rightarrow> real" where
  "round_double x =
     (if x = 0 then 0
      else
        (let e = max \<lfloor>log 2 \<bar>x\<bar>\<rfloor> (- 1022);
             u = 2 powr (of_int (e - 52))
         in of_int (round_even (x / u)) * u))"

section \<open>Example inputs\<close>

text \<open>
  The configuration of the specification's scenarios, a platform on which
  initialisation and both tests succeed, and the harness states they lead to. The
  volumes of the echo test are binary fractions, which doubles hold exactly.
\<close>

definition example_config :: AudioCheckConfig where
  "example_config =
     \<lparr> echoTestDuration = None, micTestDuration = None, minMicLevel = Some 0.001,
       maxBackgroundNoise = Some 0.005, echoThreshold = Some 0.05,
       targetSampleRate = Some 24000 \<rparr>"

definition example_init_env :: init_env where
  "example_init_env = \<lparr> init_raise = None, context_sampleRate = 24000, media_tracks = [0] \<rparr>"

text \<open>A platform that honours 48000 Hz and 16000 Hz only; at 96000 Hz it is off by 1 Hz.\<close>

definition example_new_context :: "real \<Rightarrow> probe_attempt" where
  "example_new_context rate =
     (if rate = 48000 then Realized 48000.5
      else if rate = 16000 then Realized 16000
      else if rate = 96000 then Realized 95999
      else Threw)"

definition example_echo_env :: echo_env where
  "example_echo_env =
     \<lparr> noiseVolumes = [1 / 1024], echoVolumes = [11 / 1024], echo_raise = None,
       echo_round = round_double \<rparr>"

definition example_mic_env :: mic_env where
  "example_mic_env = \<lparr> micVolumes = [0.02, 0.002], mic_arrived = (\<lambda>i. i), mic_raise = False \<rparr>"

definition example_env :: run_env where
  "example_env =
     \<lparr> env_init = example_init_env,
       env_new_context = example_new_context,
       env_echo = example_echo_env,
       env_mic = example_mic_env,
       env_stop_raises = False,
       env_now = 0 \<rparr>"

text \<open>The harness after a successful \<open>init\<close>.\<close>

definition example_ready :: AudioCheck where
  "example_ready = snd (init False example_init_env (new_AudioCheck example_config))"

text \<open>The harness holding the scenario's measurements, with the given noise floor.\<close>

definition example_measured :: "real \<Rightarrow> AudioCheck" where
  "example_measured n =
     (new_AudioCheck example_config)
       \<lparr> ac_results :=
           \<lparr> res_sampleRate = Some 24000,
             res_echoTest = Some \<lparr> passed = True, echoLevel = 0.01 \<rparr>,
             res_microphoneTest = Some \<lparr> level = 0.02, noise = n \<rparr> \<rparr> \<rparr>"

text \<open>The double nearest to \<open>0.1\<close>.\<close>

definition double_tenth :: real where
  "double_tenth = 3602879701896397 / 2 ^ 55"

text \<open>
  A candidate rate is honoured when the throwaway context could be opened and closed
  and its realized rate is less than 1 Hz away from the request.
\<close>

abbreviation honors :: "(real \<Rightarrow> probe_attempt) \<Rightarrow> real \<Rightarrow> bool" where
  "honors new_context rate \<equiv>
     (case new_context rate of
        Threw \<Rightarrow> False
      | Realized actualRate \<Rightarrow> \<bar>actualRate - rate\<bar> < 1)"

text \<open>No listener of the object raises, whatever event it is handed.\<close>

abbreviation quiet :: "AudioCheck \<Rightarrow> bool" where
  "quiet s \<equiv> (\<forall>i ev. \<not> ac_listener s i ev)"

section \<open>Properties of the diagnostic harness\<close>

subsection \<open>What the methods leave unchanged\<close>

text \<open>
  Emitting an event only adds it to the emitted events, whether a listener raises or
  not, and so does the wait loop. On a harness whose listeners never raise both go
  through. No method changes the configuration.
\<close>

declare timed_loop.simps [simp del]

lemma emitProgress_InlD:
  "emitProgress st p s = Inl s' \<Longrightarrow>
     s' = s\<lparr> ac_emitted := ac_emitted s @
            [\<lparr> pr_stage = st, pr_progress = p, pr_results = ac_results s \<rparr>] \<rparr>"
  by (auto simp: emitProgress_def Let_def split: if_splits)

lemma emitProgress_InrD:
  "emitProgress st p s = Inr s' \<Longrightarrow>
     s' = s\<lparr> ac_emitted := ac_emitted s @
            [\<lparr> pr_stage = st, pr_progress = p, pr_results = ac_results s \<rparr>] \<rparr>"
  by (auto simp: emitProgress_def Let_def split: if_splits)

lemma emitProgress_quiet [simp]:
  "quiet s \<Longrightarrow>
     emitProgress st p s =
       Inr (s\<lparr> ac_emitted := ac_emitted s @
              [\<lparr> pr_stage = st, pr_progress = p, pr_results = ac_results s \<rparr>] \<rparr>)"
  by (simp add: emitProgress_def Let_def)

lemma timed_loop_frame:
  "timed_loop d st pct i s = Inl (k, s') \<or> timed_loop d st pct i s = Inr s' \<Longrightarrow>
     \<exists>evs. s' = s\<lparr> ac_emitted := ac_emitted s @ evs \<rparr>"
proof (induction d st pct i s rule: timed_loop.induct)
  case (1 d st pct i s)
  show ?case
  proof (cases "real i < d")
    case False
    then have "timed_loop d st pct i s = Inr s" by (subst timed_loop.simps) simp
    then have "s' = s\<lparr> ac_emitted := ac_emitted s @ [] \<rparr>" using "1.prems" by auto
    then show ?thesis by blast
  next
    case True
    show ?thesis
    proof (cases "emitProgress st (pct i) s")
      case (Inl sa)
      then have "timed_loop d st pct i s = Inl (i, sa)"
        using True by (subst timed_loop.simps) simp
      then have "s' = sa" using "1.prems" by auto
      then show ?thesis using emitProgress_InlD [OF Inl] by blast
    next
      case (Inr sa)
      then have "timed_loop d st pct i s = timed_loop d st pct (Suc i) sa"
        using True by (subst timed_loop.simps) simp
      then obtain evs where "s' = sa\<lparr> ac_emitted := ac_emitted sa @ evs \<rparr>"
        using "1.IH" [OF True Inr] "1.prems" by auto
      then have "s' = s\<lparr> ac_emitted := ac_emitted s @
          ([\<lparr> pr_stage = st, pr_progress = pct i, pr_results = ac_results s \<rparr>] @ evs) \<rparr>"
        using emitProgress_InrD [OF Inr] by simp
      then show ?thesis by blast
    qed
  qed
qed

lemma timed_loop_InlD:
  "timed_loop d st pct i s = Inl (k, s') \<Longrightarrow> \<exists>evs. s' = s\<lparr> ac_emitted := ac_emitted s @ evs \<rparr>"
  using timed_loop_frame by blast

lemma timed_loop_InrD:
  "timed_loop d st pct i s = Inr s' \<Longrightarrow> \<exists>evs. s' = s\<lparr> ac_emitted := ac_emitted s @ evs \<rparr>"
  using timed_loop_frame by blast

lemma timed_loop_quiet:
  "quiet s \<Longrightarrow> \<exists>s'. timed_loop d st pct i s = Inr s'"
proof (induction d st pct i s rule: timed_loop.induct)
  case (1 d st pct i s)
  show ?case
  proof (cases "real i < d")
    case False
    then show ?thesis by (subst timed_loop.simps) simp
  next
    case True
    let ?sa = "s\<lparr> ac_emitted := ac_emitted s @
              [\<lparr> pr_stage = st, pr_progress = pct i, pr_results = ac_results s \<rparr>] \<rparr>"
    have e: "emitProgress st (pct i) s = Inr ?sa" using "1.prems" by simp
    have "quiet ?sa" using "1.prems" by simp
    then obtain s' where "timed_loop d st pct (Suc i) ?sa = Inr s'"
      using "1.IH" [OF True e] by blast
    then show ?thesis using True e by (subst timed_loop.simps) simp
  qed
qed

lemma timed_loop_quiet_case [simp]:
  "quiet s \<Longrightarrow>
     (case timed_loop d st pct i s of Inl x \<Rightarrow> f x | Inr y \<Rightarrow> g y) =
       g (projr (timed_loop d st pct i s))"
  using timed_loop_quiet [of s d st pct i] by auto

lemma timed_loop_projr_fields [simp]:
  assumes "quiet s"
  shows "ac_audioContext (projr (timed_loop d st pct i s)) = ac_audioContext s"
    "ac_stream (projr (timed_loop d st pct i s)) = ac_stream s"
    "ac_source (projr (timed_loop d st pct i s)) = ac_source s"
    "ac_volMeterWorklet (projr (timed_loop d st pct i s)) = ac_volMeterWorklet s"
    "ac_oscillator (projr (timed_loop d st pct i s)) = ac_oscillator s"
    "ac_gainNode (projr (timed_loop d st pct i s)) = ac_gainNode s"
    "ac_isRunning (projr (timed_loop d st pct i s)) = ac_isRunning s"
    "ac_config (projr (timed_loop d st pct i s)) = ac_config s"
    "ac_results (projr (timed_loop d st pct i s)) = ac_results s"
    "ac_volumeHistory (projr (timed_loop d st pct i s)) = ac_volumeHistory s"
    "ac_backgroundNoiseLevel (projr (timed_loop d st pct i s)) = ac_backgroundNoiseLevel s"
    "ac_listener (projr (timed_loop d st pct i s)) = ac_listener s"
proof -
  obtain s' where t: "timed_loop d st pct i s = Inr s'"
    using timed_loop_quiet [OF assms] by blast
  then obtain evs where "s' = s\<lparr> ac_emitted := ac_emitted s @ evs \<rparr>"
    using timed_loop_InrD by blast
  then show "ac_audioContext (projr (timed_loop d st pct i s)) = ac_audioContext s"
    "ac_stream (projr (timed_loop d st pct i s)) = ac_stream s"
    "ac_source (projr (timed_loop d st pct i s)) = ac_source s"
    "ac_volMeterWorklet (projr (timed_loop d st pct i s)) = ac_volMeterWorklet s"
    "ac_oscillator (projr (timed_loop d st pct i s)) = ac_oscillator s"
    "ac_gainNode (projr (timed_loop d st pct i s)) = ac_gainNode s"
    "ac_isRunning (projr (timed_loop d st pct i s)) = ac_isRunning s"
    "ac_config (projr (timed_loop d st pct i s)) = ac_config s"
    "ac_results (projr (timed_loop d st pct i s)) = ac_results s"
    "ac_volumeHistory (projr (timed_loop d st pct i s)) = ac_volumeHistory s"
    "ac_backgroundNoiseLevel (projr (timed_loop d st pct i s)) = ac_backgroundNoiseLevel s"
    "ac_listener (projr (timed_loop d st pct i s)) = ac_listener s"
    using t by simp_all
qed

lemma getSampleRate_config: "ac_config (snd (getSampleRate f s)) = ac_config s"
  by (auto simp: getSampleRate_def set_sampleRate_def Let_def split: option.splits sum.splits
      dest!: emitProgress_InlD emitProgress_InrD)

lemma runEchoTest_config: "ac_config (snd (runEchoTest env s)) = ac_config s"
proof (cases "echo_raise env")
  case None
  then show ?thesis
    by (auto simp: runEchoTest_def echo_body_def measureBackgroundNoise_def set_echoTest_def Let_def
        split: sum.splits prod.splits
        dest!: emitProgress_InlD emitProgress_InrD timed_loop_InlD timed_loop_InrD)
next
  case (Some st)
  then show ?thesis
    by (cases st)
      (auto simp: runEchoTest_def echo_body_def measureBackgroundNoise_def set_echoTest_def Let_def
        split: sum.splits prod.splits
        dest!: emitProgress_InlD emitProgress_InrD timed_loop_InlD timed_loop_InrD)
qed

lemma runMicTest_config: "ac_config (snd (runMicTest env s)) = ac_config s"
  by (cases "mic_raise env")
    (auto simp: runMicTest_def mic_body_def set_microphoneTest_def Let_def
      split: sum.splits prod.splits
      dest!: emitProgress_InlD emitProgress_InrD timed_loop_InlD timed_loop_InrD)

lemma init_config: "ac_config (snd (init b env s)) = ac_config s"
proof (cases "init_raise env")
  case None
  then show ?thesis
    by (auto simp: init_def init_body_def setupVolumeMeter_def cleanup_def Let_def
        split: sum.splits prod.splits
        dest!: emitProgress_InlD emitProgress_InrD)
next
  case (Some st)
  then show ?thesis
    by (cases st)
      (auto simp: init_def init_body_def setupVolumeMeter_def cleanup_def Let_def
        split: sum.splits prod.splits
        dest!: emitProgress_InlD emitProgress_InrD)
qed

subsection \<open>Rounding on the examples\<close>

text \<open>
  \<open>round_double\<close> at a number whose binary exponent is known, and from there on the
  numbers of the examples: the binary fractions of the example platform, and the sums,
  the quotient and the difference of the double nearest to 0.1.
\<close>

lemma floor_log2:
  assumes "2 powr (of_int e) \<le> x" and "x < 2 powr (of_int (e + 1))"
  shows "\<lfloor>log 2 x\<rfloor> = e"
proof -
  have "(0::real) < 2 powr (of_int e)" by simp
  then have "0 < x" using assms(1) by linarith
  then show ?thesis
    using assms floor_log_eq_powr_iff [of x 2 e] by simp
qed

lemma round_double_at:
  assumes "x \<noteq> 0" and "2 powr (of_int e) \<le> \<bar>x\<bar>" and "\<bar>x\<bar> < 2 powr (of_int (e + 1))"
    and "- 1022 \<le> e"
  shows "round_double x =
           of_int (round_even (x / 2 powr (of_int (e - 52)))) * 2 powr (of_int (e - 52))"
  using assms floor_log2 [of e "\<bar>x\<bar>"] by (simp add: round_double_def Let_def max_def)

lemma round_double_0 [simp]: "round_double 0 = 0"
  by (simp add: round_double_def)

lemma example_rounding:
  "round_double (1 / 1024) = 1 / 1024"
  "round_double (11 / 1024) = 11 / 1024"
  "round_double (5 / 512) = 5 / 512"
proof -
  show "round_double (1 / 1024) = 1 / 1024"
    by (subst round_double_at [of _ "- 10"]) (simp_all add: round_even_def powr_minus Let_def)
  show "round_double (11 / 1024) = 11 / 1024"
    by (subst round_double_at [of _ "- 7"]) (simp_all add: round_even_def powr_minus Let_def)
  show "round_double (5 / 512) = 5 / 512"
    by (subst round_double_at [of _ "- 7"]) (simp_all add: round_even_def powr_minus Let_def)
qed

lemma tenth_rounding:
  "round_double double_tenth = double_tenth"
  "round_double (2 * double_tenth) = 2 * double_tenth"
  "round_double (3 * double_tenth) = 5404319552844596 / 2 ^ 54"
  "round_double (5404319552844596 / 2 ^ 54 / 3) = 7205759403792795 / 2 ^ 56"
  "round_double (7205759403792795 / 2 ^ 56 - double_tenth) = 1 / 2 ^ 56"
proof -
  show "round_double double_tenth = double_tenth"
    unfolding double_tenth_def
    by (subst round_double_at [of _ "- 4"]) (simp_all add: round_even_def powr_minus Let_def)
  show "round_double (2 * double_tenth) = 2 * double_tenth"
    unfolding double_tenth_def
    by (subst round_double_at [of _ "- 3"]) (simp_all add: round_even_def powr_minus Let_def)
  show "round_double (3 * double_tenth) = 5404319552844596 / 2 ^ 54"
    unfolding double_tenth_def
    by (subst round_double_at [of _ "- 2"]) (simp_all add: round_even_def powr_minus Let_def)
  show "round_double (5404319552844596 / 2 ^ 54 / 3) = 7205759403792795 / 2 ^ 56"
    by (subst round_double_at [of _ "- 4"]) (simp_all add: round_even_def powr_minus Let_def)
  show "round_double (7205759403792795 / 2 ^ 56 - double_tenth) = 1 / 2 ^ 56"
    unfolding double_tenth_def
    by (subst round_double_at [of _ "- 56"]) (simp_all add: round_even_def powr_minus Let_def)
qed

text \<open>
  The sum of three times the double nearest to 0.1 lies halfway between two doubles
  and is rounded to the even one, \<open>0.30000000000000004\<close>; a third of it is the double
  above the one nearest to 0.1.
\<close>

lemma sum_tenth_3:
  "foldl (\<lambda>a b. round_double (a + b)) 0 [double_tenth, double_tenth, double_tenth] =
     5404319552844596 / 2 ^ 54"
proof -
  have "foldl (\<lambda>a b. round_double (a + b)) 0 [double_tenth, double_tenth, double_tenth] =
      round_double (round_double (round_double (0 + double_tenth) + double_tenth) + double_tenth)"
    by (simp only: foldl.simps)
  also have "\<dots> = round_double (round_double (double_tenth + double_tenth) + double_tenth)"
    by (simp only: add_0 tenth_rounding(1))
  also have "\<dots> = round_double (2 * double_tenth + double_tenth)"
    by (simp only: mult_2 [symmetric] tenth_rounding(2))
  also have "\<dots> = round_double (3 * double_tenth)"
    by simp
  also have "\<dots> = 5404319552844596 / 2 ^ 54"
    by (rule tenth_rounding(3))
  finally show ?thesis .
qed

lemma average_tenth_3:
  "average round_double [double_tenth, double_tenth, double_tenth] = 7205759403792795 / 2 ^ 56"
proof -
  have "average round_double [double_tenth, double_tenth, double_tenth] =
      round_double (foldl (\<lambda>a b. round_double (a + b)) 0
        [double_tenth, double_tenth, double_tenth] / 3)"
    by (simp add: average_def)
  also have "\<dots> = round_double (5404319552844596 / 2 ^ 54 / 3)"
    by (simp only: sum_tenth_3)
  also have "\<dots> = 7205759403792795 / 2 ^ 56"
    by (rule tenth_rounding(4))
  finally show ?thesis .
qed

lemma average_tenth_1: "average round_double [double_tenth] = double_tenth"
  by (simp add: average_def tenth_rounding(1))


subsection \<open>Evaluating the examples\<close>

lemmas harness_defs =
  runAllTests_def run_tests_def init_def init_body_def setupVolumeMeter_def
  getSampleRate_def set_sampleRate_def runEchoTest_def echo_body_def
  measureBackgroundNoise_def set_echoTest_def runMicTest_def mic_body_def
  set_microphoneTest_def getCompleteResults_def isComplete_def isTestPassed_def
  nullish_def collected_def average_def percentile_def js_index_def or_zero_def
  new_AudioCheck_def default_config_def cleanup_def Let_def

lemmas example_defs =
  example_env_def example_init_env_def example_config_def example_ready_def
  example_measured_def example_new_context_def example_echo_env_def example_mic_env_def

lemma example_ready_fields:
  "ac_audioContext example_ready = Some 24000"
  "ac_source example_ready = Some MediaStreamSource"
  "ac_volMeterWorklet example_ready = Some VolMeter"
  "ac_stream example_ready = Some [0]"
  "ac_oscillator example_ready = None"
  "ac_gainNode example_ready = None"
  "ac_config example_ready = default_config example_config"
  "ac_results example_ready =
     \<lparr> res_sampleRate = None, res_echoTest = None, res_microphoneTest = None \<rparr>"
  "ac_listener example_ready = (\<lambda>i ev. False)"
  by (simp_all add: harness_defs example_defs)

lemma example_run:
  "fst (runAllTests example_env (new_AudioCheck example_config)) =
     Inr \<lparr> timestamp = 0, sampleRate = Some 24000,
           echoTest = Some \<lparr> passed = True, echoLevel = 5 / 512 \<rparr>,
           microphoneTest = Some \<lparr> level = 0.02, noise = 0.002 \<rparr>,
           overallPassed = True \<rparr>"
  by (simp add: harness_defs example_defs example_rounding)

text \<open>
  When the tone cannot be started the echo test reports its worst case, no echo result
  is stored, and the suite ends with the error of \<open>getCompleteResults\<close>.
\<close>

lemma example_run_echo_fault:
  "fst (runAllTests
         (example_env\<lparr> env_echo := example_echo_env\<lparr> echo_raise := Some StartTone \<rparr> \<rparr>)
         (new_AudioCheck example_config)) = Inl NotComplete"
  by (simp add: harness_defs example_defs example_rounding)

subsection \<open>The overall verdict\<close>

lemma run_tests_verdict:
  assumes "fst (run_tests env s) = Inr r"
  shows "\<exists>sr e m. sampleRate r = Some sr \<and> echoTest r = Some e \<and> microphoneTest r = Some m \<and>
           overallPassed r =
             (sr \<ge> cfg_targetSampleRate (ac_config s) \<and> passed e \<and>
              level m \<ge> cfg_minMicLevel (ac_config s) \<and>
              noise m < cfg_maxBackgroundNoise (ac_config s))"
proof -
  obtain x1 s1 where 1: "getSampleRate (env_new_context env) s = (x1, s1)" by fastforce
  obtain x2 s2 where 2: "runEchoTest (env_echo env) s1 = (x2, s2)" by fastforce
  obtain x3 s3 where 3: "runMicTest (env_mic env) s2 = (x3, s3)" by fastforce
  have c: "ac_config s3 = ac_config s"
    using getSampleRate_config [of "env_new_context env" s]
      runEchoTest_config [of "env_echo env" s1] runMicTest_config [of "env_mic env" s2] 1 2 3
    by simp
  obtain s4 where e: "emitProgress StComplete 100 s3 = Inr s4"
    and g: "getCompleteResults (env_now env) s4 = Inr r"
    using assms 1 2 3 by (auto simp: run_tests_def Let_def split: sum.splits)
  have "ac_config s4 = ac_config s"
    using emitProgress_InrD [OF e] c by simp
  then show ?thesis
    using g
    by (auto simp: getCompleteResults_def isComplete_def isTestPassed_def nullish_def
        split: if_splits option.splits)
qed

lemma runAllTests_verdict:
  assumes "fst (runAllTests env s) = Inr r"
  shows "\<exists>sr e m. sampleRate r = Some sr \<and> echoTest r = Some e \<and> microphoneTest r = Some m \<and>
           overallPassed r =
             (sr \<ge> cfg_targetSampleRate (ac_config s) \<and> passed e \<and>
              level m \<ge> cfg_minMicLevel (ac_config s) \<and>
              noise m < cfg_maxBackgroundNoise (ac_config s))"
proof -
  obtain x1 s1 where 1: "init (env_stop_raises env) (env_init env) s = (x1, s1)" by fastforce
  have c: "ac_config s1 = ac_config s"
    using init_config [of "env_stop_raises env" "env_init env" s] 1 by simp
  have "fst (run_tests env s1) = Inr r"
    using assms 1 by (auto simp: runAllTests_def split: sum.splits prod.splits)
  then show ?thesis
    using run_tests_verdict [of env s1 r] c by simp
qed

text \<open>
  C1. Whenever the three sub-results are present, \<open>isTestPassed\<close> is the conjunction
  of the four checks: the sample rate reaches the target, the echo test passed, the
  microphone level reaches the minimum, and the noise is below the maximum. The verdict
  in a result that \<open>getCompleteResults\<close> builds, and in a result that \<open>runAllTests\<close>
  returns, is that conjunction over the result's own sub-results. With the scenario's
  configuration and a measured noise of 0.006 the verdict is false, although the sample
  rate and the echo test pass.
\<close>

theorem C1_overall_verdict:
  "(res_sampleRate (ac_results s) = Some sr \<and> res_echoTest (ac_results s) = Some e \<and>
    res_microphoneTest (ac_results s) = Some m \<longrightarrow>
      isTestPassed s =
        (sr \<ge> cfg_targetSampleRate (ac_config s) \<and> passed e \<and>
         level m \<ge> cfg_minMicLevel (ac_config s) \<and>
         noise m < cfg_maxBackgroundNoise (ac_config s)) \<and>
      (\<forall>r. getCompleteResults now s = Inr r \<longrightarrow>
         overallPassed r =
           (sr \<ge> cfg_targetSampleRate (ac_config s) \<and> passed e \<and>
            level m \<ge> cfg_minMicLevel (ac_config s) \<and>
            noise m < cfg_maxBackgroundNoise (ac_config s)))) \<and>
   (fst (runAllTests env s') = Inr r' \<longrightarrow>
      (\<exists>sr' e' m'. sampleRate r' = Some sr' \<and> echoTest r' = Some e' \<and>
         microphoneTest r' = Some m' \<and>
         overallPassed r' =
           (sr' \<ge> cfg_targetSampleRate (ac_config s') \<and> passed e' \<and>
            level m' \<ge> cfg_minMicLevel (ac_config s') \<and>
            noise m' < cfg_maxBackgroundNoise (ac_config s')))) \<and>
   \<not> isTestPassed (example_measured 0.006) \<and>
   getCompleteResults now (example_measured 0.006) =
     Inr \<lparr> timestamp = now, sampleRate = Some 24000,
           echoTest = Some \<lparr> passed = True, echoLevel = 0.01 \<rparr>,
           microphoneTest = Some \<lparr> level = 0.02, noise = 0.006 \<rparr>,
           overallPassed = False \<rparr>"
proof (intro conjI)
  show "res_sampleRate (ac_results s) = Some sr \<and> res_echoTest (ac_results s) = Some e \<and>
    res_microphoneTest (ac_results s) = Some m \<longrightarrow>
      isTestPassed s =
        (sr \<ge> cfg_targetSampleRate (ac_config s) \<and> passed e \<and>
         level m \<ge> cfg_minMicLevel (ac_config s) \<and>
         noise m < cfg_maxBackgroundNoise (ac_config s)) \<and>
      (\<forall>r. getCompleteResults now s = Inr r \<longrightarrow>
         overallPassed r =
           (sr \<ge> cfg_targetSampleRate (ac_config s) \<and> passed e \<and>
            level m \<ge> cfg_minMicLevel (ac_config s) \<and>
            noise m < cfg_maxBackgroundNoise (ac_config s)))"
    by (auto simp: isTestPassed_def getCompleteResults_def nullish_def split: if_splits)
  show "fst (runAllTests env s') = Inr r' \<longrightarrow>
      (\<exists>sr' e' m'. sampleRate r' = Some sr' \<and> echoTest r' = Some e' \<and>
         microphoneTest r' = Some m' \<and>
         overallPassed r' =
           (sr' \<ge> cfg_targetSampleRate (ac_config s') \<and> passed e' \<and>
            level m' \<ge> cfg_minMicLevel (ac_config s') \<and>
            noise m' < cfg_maxBackgroundNoise (ac_config s')))"
    using runAllTests_verdict [of env s' r'] by blast
  show "\<not> isTestPassed (example_measured 0.006)"
    by (simp add: harness_defs example_defs)
  show "getCompleteResults now (example_measured 0.006) =
     Inr \<lparr> timestamp = now, sampleRate = Some 24000,
           echoTest = Some \<lparr> passed = True, echoLevel = 0.01 \<rparr>,
           microphoneTest = Some \<lparr> level = 0.02, noise = 0.006 \<rparr>,
           overallPassed = False \<rparr>"
    by (simp add: harness_defs example_defs)
qed

text \<open>
  The scenario with a noise of 0.002 passes, and so does the run of the whole suite
  on the example platform.
\<close>

theorem C1_overall_verdict_witness:
  "isTestPassed (example_measured 0.002) \<and>
   (\<exists>sr e m.
      sampleRate (projr (fst (runAllTests example_env (new_AudioCheck example_config)))) = Some sr \<and>
      echoTest (projr (fst (runAllTests example_env (new_AudioCheck example_config)))) = Some e \<and>
      microphoneTest (projr (fst (runAllTests example_env (new_AudioCheck example_config)))) = Some m \<and>
      overallPassed (projr (fst (runAllTests example_env (new_AudioCheck example_config)))) =
        (sr \<ge> 24000 \<and> passed e \<and> level m \<ge> 0.001 \<and> noise m < 0.005))"
  using C1_overall_verdict
    [of "example_measured 0.002" 24000 "\<lparr> passed = True, echoLevel = 0.01 \<rparr>"
        "\<lparr> level = 0.02, noise = 0.002 \<rparr>" 0 example_env "new_AudioCheck example_config"
        "projr (fst (runAllTests example_env (new_AudioCheck example_config)))"]
    example_run
  by (simp add: example_measured_def new_AudioCheck_def default_config_def example_config_def
      nullish_def)

subsection \<open>The result of the full suite\<close>

text \<open>
  C2. \<open>runAllTests\<close> ends in one of two ways: it raises, and then no result object
  exists, or it returns a result whose sample rate, echo test and microphone test are
  all present. (The verdict \<open>overallPassed\<close> is a Boolean in every result.) This holds
  for every configuration, every earlier state of the object, every listener and every
  behaviour of the platform.
\<close>

theorem C2_complete_or_raises:
  "(\<exists>err. fst (runAllTests env s) = Inl err) \<or>
   (\<exists>r sr e m. fst (runAllTests env s) = Inr r \<and>
      sampleRate r = Some sr \<and> echoTest r = Some e \<and> microphoneTest r = Some m)"
proof (cases "fst (runAllTests env s)")
  case (Inl err)
  then show ?thesis by blast
next
  case (Inr r)
  then obtain s4 where g: "getCompleteResults (env_now env) s4 = Inr r"
    by (auto simp: runAllTests_def run_tests_def Let_def split: prod.splits sum.splits)
  then have "sampleRate r \<noteq> None \<and> echoTest r \<noteq> None \<and> microphoneTest r \<noteq> None"
    by (auto simp: getCompleteResults_def isComplete_def split: if_splits option.splits)
  then show ?thesis using Inr by auto
qed

text \<open>On the example platform the suite returns a result, and all of it is there.\<close>

theorem C2_complete_or_raises_witness:
  "\<exists>r sr e m. fst (runAllTests example_env (new_AudioCheck example_config)) = Inr r \<and>
      sampleRate r = Some sr \<and> echoTest r = Some e \<and> microphoneTest r = Some m"
  using C2_complete_or_raises [of example_env "new_AudioCheck example_config"] example_run
  by auto

subsection \<open>Errors inside the tests\<close>

text \<open>
  C3, at the input where the code departs from it. On the initialised example harness
  the echo test cannot start its tone. \<open>runEchoTest\<close> does not propagate the error and
  returns the worst case \<open>{passed: false, echoLevel: 1}\<close>, but it stores nothing: the
  echo-test result of \<open>this.results\<close> is still absent.
\<close>

theorem C3_echo_error_not_recorded:
  "fst (runEchoTest (example_echo_env\<lparr> echo_raise := Some StartTone \<rparr>) example_ready) =
     Inr \<lparr> passed = False, echoLevel = 1 \<rparr> \<and>
   res_echoTest (ac_results
     (snd (runEchoTest (example_echo_env\<lparr> echo_raise := Some StartTone \<rparr>) example_ready))) =
     None"
  by (simp add: harness_defs example_defs example_rounding)

theorem C3_echo_error_not_recorded_witness:
  "res_echoTest (ac_results
     (snd (runEchoTest (example_echo_env\<lparr> echo_raise := Some StartTone \<rparr>) example_ready))) \<noteq>
     Some \<lparr> passed = False, echoLevel = 1 \<rparr>"
  using C3_echo_error_not_recorded by simp

text \<open>
  The result is stored before the last progress event of the \<open>try\<close> block is emitted.
  A listener that raises on that event makes the test return the worst case while the
  stored result is the measured one, a pass.
\<close>

lemma echo_listener_raises_after_store:
  "fst (runEchoTest example_echo_env
         (example_ready\<lparr> ac_listener :=
            (\<lambda>i ev. pr_stage ev = StEchoTest \<and> pr_progress ev = 100) \<rparr>)) =
     Inr \<lparr> passed = False, echoLevel = 1 \<rparr> \<and>
   res_echoTest (ac_results
     (snd (runEchoTest example_echo_env
         (example_ready\<lparr> ac_listener :=
            (\<lambda>i ev. pr_stage ev = StEchoTest \<and> pr_progress ev = 100) \<rparr>)))) =
     Some \<lparr> passed = True, echoLevel = 5 / 512 \<rparr>"
  by (simp add: harness_defs example_defs example_rounding emitProgress_def timed_loop.simps)

text \<open>
  The suite keeps the results of earlier runs. After a run that passed, a second run
  whose echo test cannot start its tone returns the first run's echo result and passes.
\<close>

lemma second_run_stale_echo_result:
  "fst (runAllTests
         (example_env\<lparr> env_echo := example_echo_env\<lparr> echo_raise := Some StartTone \<rparr> \<rparr>)
         (snd (runAllTests example_env (new_AudioCheck example_config)))) =
     Inr \<lparr> timestamp = 0, sampleRate = Some 24000,
           echoTest = Some \<lparr> passed = True, echoLevel = 5 / 512 \<rparr>,
           microphoneTest = Some \<lparr> level = 0.02, noise = 0.002 \<rparr>,
           overallPassed = True \<rparr>"
  by (simp add: harness_defs example_defs example_rounding)

subsection \<open>The echo level\<close>

lemma echo_body_ok:
  "echo_raise env = None \<Longrightarrow> quiet s \<Longrightarrow>
     \<exists>s'. echo_body env s =
        Inr (\<lparr> passed = (max 0 (echo_round env
                               (average (echo_round env) (collected s (echoVolumes env))
                                - average (echo_round env) (collected s (noiseVolumes env))))
                         < cfg_echoThreshold (ac_config s)),
               echoLevel = max 0 (echo_round env
                               (average (echo_round env) (collected s (echoVolumes env))
                                - average (echo_round env) (collected s (noiseVolumes env)))) \<rparr>, s') \<and>
        ac_backgroundNoiseLevel s' = average (echo_round env) (collected s (noiseVolumes env)) \<and>
        res_echoTest (ac_results s') =
          Some \<lparr> passed = (max 0 (echo_round env
                               (average (echo_round env) (collected s (echoVolumes env))
                                - average (echo_round env) (collected s (noiseVolumes env))))
                         < cfg_echoThreshold (ac_config s)),
               echoLevel = max 0 (echo_round env
                               (average (echo_round env) (collected s (echoVolumes env))
                                - average (echo_round env) (collected s (noiseVolumes env)))) \<rparr>"
  by (simp add: echo_body_def Let_def measureBackgroundNoise_def set_echoTest_def collected_def)

lemma runEchoTest_ok:
  assumes "ac_audioContext s \<noteq> None" and "ac_source s \<noteq> None"
    and "echo_raise env = None" and "quiet s"
  shows "fst (runEchoTest env s) =
       Inr \<lparr> passed = (max 0 (echo_round env
                               (average (echo_round env) (collected s (echoVolumes env))
                                - average (echo_round env) (collected s (noiseVolumes env))))
                         < cfg_echoThreshold (ac_config s)),
             echoLevel = max 0 (echo_round env
                               (average (echo_round env) (collected s (echoVolumes env))
                                - average (echo_round env) (collected s (noiseVolumes env)))) \<rparr>"
    and "res_echoTest (ac_results (snd (runEchoTest env s))) = Some (projr (fst (runEchoTest env s)))"
    and "ac_backgroundNoiseLevel (snd (runEchoTest env s)) =
           average (echo_round env) (collected s (noiseVolumes env))"
proof -
  let ?s0 = "s\<lparr> ac_isRunning := True,
                 ac_emitted := ac_emitted s @
                   [\<lparr> pr_stage = StEchoTest, pr_progress = 0, pr_results = ac_results s \<rparr>] \<rparr>"
  let ?lvl = "max 0 (echo_round env
                (average (echo_round env) (collected s (echoVolumes env))
                 - average (echo_round env) (collected s (noiseVolumes env))))"
  have e: "emitProgress StEchoTest 0 (s\<lparr> ac_isRunning := True \<rparr>) = Inr ?s0"
    using assms(4) by simp
  have q: "quiet ?s0" using assms(4) by simp
  have c: "collected ?s0 = collected s" by (rule ext) (simp add: collected_def)
  obtain s' where b: "echo_body env ?s0 =
        Inr (\<lparr> passed = (?lvl < cfg_echoThreshold (ac_config s)), echoLevel = ?lvl \<rparr>, s')"
    and n: "ac_backgroundNoiseLevel s' = average (echo_round env) (collected s (noiseVolumes env))"
    and r: "res_echoTest (ac_results s') =
        Some \<lparr> passed = (?lvl < cfg_echoThreshold (ac_config s)), echoLevel = ?lvl \<rparr>"
    using echo_body_ok [OF assms(3) q] c by auto
  have i: "\<not> (ac_audioContext s = None \<or> ac_source s = None)"
    using assms(1,2) by blast
  have f: "runEchoTest env s =
      (Inr \<lparr> passed = (?lvl < cfg_echoThreshold (ac_config s)), echoLevel = ?lvl \<rparr>, s')"
    unfolding runEchoTest_def using i e b by simp
  show "fst (runEchoTest env s) =
      Inr \<lparr> passed = (?lvl < cfg_echoThreshold (ac_config s)), echoLevel = ?lvl \<rparr>"
    using f by simp
  show "res_echoTest (ac_results (snd (runEchoTest env s))) = Some (projr (fst (runEchoTest env s)))"
    using f r by simp
  show "ac_backgroundNoiseLevel (snd (runEchoTest env s)) =
           average (echo_round env) (collected s (noiseVolumes env))"
    using f n by simp
qed



text \<open>
  With three tone volumes instead, the exact averages are still equal, but the code's
  sum of the three is rounded up: the computed average is one unit in the last place
  above the baseline, and the echo level is \<open>2\<^sup>-\<^sup>5\<^sup>6\<close>, not 0.
\<close>

lemma echo_level_rounded_sum:
  "fst (runEchoTest
         \<lparr> noiseVolumes = [double_tenth],
           echoVolumes = [double_tenth, double_tenth, double_tenth],
           echo_raise = None, echo_round = round_double \<rparr>
         example_ready) = Inr \<lparr> passed = True, echoLevel = 1 / 2 ^ 56 \<rparr>"
proof -
  let ?env = "\<lparr> noiseVolumes = [double_tenth],
           echoVolumes = [double_tenth, double_tenth, double_tenth],
           echo_raise = None, echo_round = round_double \<rparr>"
  have l: "round_double (average round_double [double_tenth, double_tenth, double_tenth]
             - average round_double [double_tenth]) = 1 / 2 ^ 56"
    by (simp only: average_tenth_1 average_tenth_3 tenth_rounding(5))
  have "fst (runEchoTest ?env example_ready) =
      Inr \<lparr> passed = (max 0 (round_double
                 (average round_double [double_tenth, double_tenth, double_tenth]
                  - average round_double [double_tenth])) < 0.05),
            echoLevel = max 0 (round_double
                 (average round_double [double_tenth, double_tenth, double_tenth]
                  - average round_double [double_tenth])) \<rparr>"
    using runEchoTest_ok(1) [of example_ready ?env]
    by (simp add: example_ready_fields collected_def default_config_def example_config_def
        nullish_def)
  then show ?thesis
    unfolding l by simp
qed

subsection \<open>The microphone statistics\<close>

lemma mic_body_ok:
  "\<not> mic_raise env \<Longrightarrow> quiet s \<Longrightarrow>
     \<exists>s'. mic_body env s =
        Inr (\<lparr> level = percentile (sort (collected s (micVolumes env))) 0.95,
               noise = percentile (sort (collected s (micVolumes env))) 0.10 \<rparr>, s') \<and>
        res_microphoneTest (ac_results s') =
          Some \<lparr> level = percentile (sort (collected s (micVolumes env))) 0.95,
                 noise = percentile (sort (collected s (micVolumes env))) 0.10 \<rparr> \<and>
        ac_volumeHistory s' = collected s (micVolumes env) \<and>
        ac_config s' = ac_config s"
  by (simp add: mic_body_def Let_def set_microphoneTest_def collected_def)

lemma percentile_index:
  assumes "0 < n" and "q < 1"
  shows "nat \<lfloor>real n * q\<rfloor> < n"
proof -
  have "real n * q < real n" using assms by simp
  then have "\<lfloor>real n * q\<rfloor> < int n" by (simp add: floor_less_iff)
  then show ?thesis using assms(1) by linarith
qed

lemma percentile_in_range:
  "nat \<lfloor>real (length xs) * q\<rfloor> < length xs \<Longrightarrow>
     percentile xs q = xs ! nat \<lfloor>real (length xs) * q\<rfloor>"
  by (simp add: percentile_def js_index_def or_zero_def)

lemma runMicTest_ok:
  assumes "ac_audioContext s \<noteq> None" and "ac_source s \<noteq> None"
    and "\<not> mic_raise env" and "quiet s"
  shows "runMicTest env s =
      (Inr \<lparr> level = percentile (sort (collected s (micVolumes env))) 0.95,
             noise = percentile (sort (collected s (micVolumes env))) 0.10 \<rparr>,
       snd (runMicTest env s))"
    and "res_microphoneTest (ac_results (snd (runMicTest env s))) =
      Some \<lparr> level = percentile (sort (collected s (micVolumes env))) 0.95,
             noise = percentile (sort (collected s (micVolumes env))) 0.10 \<rparr>"
    and "ac_volumeHistory (snd (runMicTest env s)) = collected s (micVolumes env)"
    and "ac_config (snd (runMicTest env s)) = ac_config s"
proof -
  let ?s0 = "s\<lparr> ac_isRunning := True,
                 ac_emitted := ac_emitted s @
                   [\<lparr> pr_stage = StMicTest, pr_progress = 0, pr_results = ac_results s \<rparr>] \<rparr>"
  let ?r = "\<lparr> level = percentile (sort (collected s (micVolumes env))) 0.95,
             noise = percentile (sort (collected s (micVolumes env))) 0.10 \<rparr>"
  have e: "emitProgress StMicTest 0 (s\<lparr> ac_isRunning := True \<rparr>) = Inr ?s0"
    using assms(4) by simp
  have q: "quiet ?s0" using assms(4) by simp
  have c: "collected ?s0 = collected s" by (rule ext) (simp add: collected_def)
  obtain s' where b: "mic_body env ?s0 = Inr (?r, s')"
    and r: "res_microphoneTest (ac_results s') = Some ?r"
    and h: "ac_volumeHistory s' = collected s (micVolumes env)"
    and g: "ac_config s' = ac_config s"
    using mic_body_ok [OF assms(3) q] c by auto
  have i: "\<not> (ac_audioContext s = None \<or> ac_source s = None)"
    using assms(1,2) by blast
  have f: "runMicTest env s = (Inr ?r, s')"
    unfolding runMicTest_def using i e b by simp
  show "runMicTest env s = (Inr ?r, snd (runMicTest env s))" using f by simp
  show "res_microphoneTest (ac_results (snd (runMicTest env s))) = Some ?r" using f r by simp
  show "ac_volumeHistory (snd (runMicTest env s)) = collected s (micVolumes env)"
    using f h by simp
  show "ac_config (snd (runMicTest env s)) = ac_config s" using f g by simp
qed

lemma runMicTest_raise:
  assumes "ac_audioContext s \<noteq> None" and "ac_source s \<noteq> None"
    and "mic_raise env" and "quiet s"
  shows "fst (runMicTest env s) = Inr \<lparr> level = 0, noise = 1 \<rparr>"
proof -
  have i: "\<not> (ac_audioContext s = None \<or> ac_source s = None)"
    using assms(1,2) by blast
  show ?thesis
    unfolding runMicTest_def using i assms(3,4) by (simp add: mic_body_def Let_def)
qed

text \<open>
  C5. Let \<open>h\<close> be the level history collected during the microphone test, of length
  \<open>n > 0\<close>. When nothing raises, the test on an initialised harness reports as level the
  element at index \<open>floor (n * 0.95)\<close> of the ascending-sorted history and as noise the
  element at index \<open>floor (n * 0.10)\<close>; both indices are inside the history, and the
  same two values are stored as the microphone sub-result. For an ascending history of
  100 samples these are the samples at index 95 and at index 10.
\<close>

theorem C5_percentiles:
  "ac_audioContext s \<noteq> None \<and> ac_source s \<noteq> None \<and> \<not> mic_raise env \<and> quiet s \<and>
   h = collected s (micVolumes env) \<and> h \<noteq> [] \<longrightarrow>
     nat \<lfloor>real (length h) * 0.95\<rfloor> < length h \<and>
     nat \<lfloor>real (length h) * 0.10\<rfloor> < length h \<and>
     fst (runMicTest env s) =
       Inr \<lparr> level = sort h ! nat \<lfloor>real (length h) * 0.95\<rfloor>,
             noise = sort h ! nat \<lfloor>real (length h) * 0.10\<rfloor> \<rparr> \<and>
     res_microphoneTest (ac_results (snd (runMicTest env s))) =
       Some \<lparr> level = sort h ! nat \<lfloor>real (length h) * 0.95\<rfloor>,
              noise = sort h ! nat \<lfloor>real (length h) * 0.10\<rfloor> \<rparr> \<and>
     ac_volumeHistory (snd (runMicTest env s)) = h \<and>
     (length h = 100 \<and> sorted h \<longrightarrow>
        fst (runMicTest env s) = Inr \<lparr> level = h ! 95, noise = h ! 10 \<rparr>)"
proof (intro impI)
  assume a: "ac_audioContext s \<noteq> None \<and> ac_source s \<noteq> None \<and> \<not> mic_raise env \<and> quiet s \<and>
   h = collected s (micVolumes env) \<and> h \<noteq> []"
  then have 1: "ac_audioContext s \<noteq> None" and 2: "ac_source s \<noteq> None"
    and 3: "\<not> mic_raise env" and 4: "quiet s" and 5: "h = collected s (micVolumes env)"
    and 6: "h \<noteq> []"
    by blast+
  note ok = runMicTest_ok [OF 1 2 3 4]
  have n: "0 < length h" using 6 by simp
  have i95: "nat \<lfloor>real (length h) * 0.95\<rfloor> < length h"
    by (rule percentile_index [OF n]) simp
  have i10: "nat \<lfloor>real (length h) * 0.10\<rfloor> < length h"
    by (rule percentile_index [OF n]) simp
  have p95: "percentile (sort h) 0.95 = sort h ! nat \<lfloor>real (length h) * 0.95\<rfloor>"
    using percentile_in_range [of "sort h" "0.95"] i95 by simp
  have p10: "percentile (sort h) 0.10 = sort h ! nat \<lfloor>real (length h) * 0.10\<rfloor>"
    using percentile_in_range [of "sort h" "0.10"] i10 by simp
  have r: "fst (runMicTest env s) =
       Inr \<lparr> level = sort h ! nat \<lfloor>real (length h) * 0.95\<rfloor>,
             noise = sort h ! nat \<lfloor>real (length h) * 0.10\<rfloor> \<rparr>"
    using ok(1) 5 p95 p10 by (metis fst_conv)
  have st: "res_microphoneTest (ac_results (snd (runMicTest env s))) =
       Some \<lparr> level = sort h ! nat \<lfloor>real (length h) * 0.95\<rfloor>,
              noise = sort h ! nat \<lfloor>real (length h) * 0.10\<rfloor> \<rparr>"
    using ok(2) 5 p95 p10 by simp
  have hs: "ac_volumeHistory (snd (runMicTest env s)) = h"
    using ok(3) 5 by simp
  have f: "length h = 100 \<and> sorted h \<longrightarrow>
        fst (runMicTest env s) = Inr \<lparr> level = h ! 95, noise = h ! 10 \<rparr>"
  proof
    assume l: "length h = 100 \<and> sorted h"
    then have "sort h = h" by (simp add: sorted_sort_id)
    then show "fst (runMicTest env s) = Inr \<lparr> level = h ! 95, noise = h ! 10 \<rparr>"
      using r l by simp
  qed
  show "nat \<lfloor>real (length h) * 0.95\<rfloor> < length h \<and>
     nat \<lfloor>real (length h) * 0.10\<rfloor> < length h \<and>
     fst (runMicTest env s) =
       Inr \<lparr> level = sort h ! nat \<lfloor>real (length h) * 0.95\<rfloor>,
             noise = sort h ! nat \<lfloor>real (length h) * 0.10\<rfloor> \<rparr> \<and>
     res_microphoneTest (ac_results (snd (runMicTest env s))) =
       Some \<lparr> level = sort h ! nat \<lfloor>real (length h) * 0.95\<rfloor>,
              noise = sort h ! nat \<lfloor>real (length h) * 0.10\<rfloor> \<rparr> \<and>
     ac_volumeHistory (snd (runMicTest env s)) = h \<and>
     (length h = 100 \<and> sorted h \<longrightarrow>
        fst (runMicTest env s) = Inr \<lparr> level = h ! 95, noise = h ! 10 \<rparr>)"
    using i95 i10 r st hs f by blast
qed

text \<open>The history \<open>0, 0.01, ..., 0.99\<close>: the level is 0.95 and the noise is 0.10.\<close>

theorem C5_percentiles_witness:
  "fst (runMicTest
         \<lparr> micVolumes = map (\<lambda>i. real i / 100) [0..<100], mic_arrived = (\<lambda>i. 50 * i),
           mic_raise = False \<rparr>
         example_ready) = Inr \<lparr> level = 0.95, noise = 0.10 \<rparr>"
proof -
  have srt: "sorted (map (\<lambda>i. real i / 100) [0..<100])"
    by (simp add: sorted_map divide_right_mono)
  show ?thesis
    using C5_percentiles
      [of example_ready
          "\<lparr> micVolumes = map (\<lambda>i. real i / 100) [0..<100], mic_arrived = (\<lambda>i. 50 * i),
             mic_raise = False \<rparr>"
          "map (\<lambda>i. real i / 100) [0..<100]"]
      srt sorted_sort_id [OF srt]
    by (simp add: example_ready_fields collected_def)
qed

text \<open>
  C10. When the measurement window of the microphone test ends with an empty history
  and nothing raises, the test on an initialised harness returns \<open>{level: 0, noise: 0}\<close>
  and stores it as the microphone sub-result. The stored noise of \<open>0\<close> satisfies the
  background-noise check of \<open>isTestPassed\<close> for every positive maximum, whereas the
  same test with a raise returns the noise \<open>1\<close>.
\<close>

theorem C10_empty_history:
  "ac_audioContext s \<noteq> None \<and> ac_source s \<noteq> None \<and> \<not> mic_raise env \<and> quiet s \<and>
   collected s (micVolumes env) = [] \<longrightarrow>
     fst (runMicTest env s) = Inr \<lparr> level = 0, noise = 0 \<rparr> \<and>
     res_microphoneTest (ac_results (snd (runMicTest env s))) = Some \<lparr> level = 0, noise = 0 \<rparr> \<and>
     (0 < cfg_maxBackgroundNoise (ac_config s) \<longrightarrow>
        nullish (map_option noise (res_microphoneTest (ac_results (snd (runMicTest env s))))) 1
          < cfg_maxBackgroundNoise (ac_config (snd (runMicTest env s)))) \<and>
     fst (runMicTest (env\<lparr> mic_raise := True \<rparr>) s) = Inr \<lparr> level = 0, noise = 1 \<rparr>"
proof (intro impI)
  assume a: "ac_audioContext s \<noteq> None \<and> ac_source s \<noteq> None \<and> \<not> mic_raise env \<and> quiet s \<and>
   collected s (micVolumes env) = []"
  then have 1: "ac_audioContext s \<noteq> None" and 2: "ac_source s \<noteq> None"
    and 3: "\<not> mic_raise env" and 4: "quiet s" and 5: "collected s (micVolumes env) = []"
    by blast+
  note ok = runMicTest_ok [OF 1 2 3 4]
  have p: "percentile [] q = 0" for q by (simp add: percentile_def js_index_def or_zero_def)
  have r1: "fst (runMicTest env s) = Inr \<lparr> level = 0, noise = 0 \<rparr>"
    using ok(1) 5 p by (metis fst_conv sort_key_simps(1))
  have r2: "res_microphoneTest (ac_results (snd (runMicTest env s))) =
      Some \<lparr> level = 0, noise = 0 \<rparr>"
    using ok(2) 5 p by simp
  have r3: "fst (runMicTest (env\<lparr> mic_raise := True \<rparr>) s) = Inr \<lparr> level = 0, noise = 1 \<rparr>"
    using runMicTest_raise [of s "env\<lparr> mic_raise := True \<rparr>"] 1 2 4 by simp
  show "fst (runMicTest env s) = Inr \<lparr> level = 0, noise = 0 \<rparr> \<and>
     res_microphoneTest (ac_results (snd (runMicTest env s))) = Some \<lparr> level = 0, noise = 0 \<rparr> \<and>
     (0 < cfg_maxBackgroundNoise (ac_config s) \<longrightarrow>
        nullish (map_option noise (res_microphoneTest (ac_results (snd (runMicTest env s))))) 1
          < cfg_maxBackgroundNoise (ac_config (snd (runMicTest env s)))) \<and>
     fst (runMicTest (env\<lparr> mic_raise := True \<rparr>) s) = Inr \<lparr> level = 0, noise = 1 \<rparr>"
    using r1 r2 r3 ok(4) by (simp add: nullish_def)
qed

text \<open>No volume arrives on the example harness, whose maximum noise is 0.005.\<close>

theorem C10_empty_history_witness:
  "fst (runMicTest \<lparr> micVolumes = [], mic_arrived = (\<lambda>i. 0), mic_raise = False \<rparr>
         example_ready) = Inr \<lparr> level = 0, noise = 0 \<rparr> \<and>
   res_microphoneTest (ac_results (snd (runMicTest
     \<lparr> micVolumes = [], mic_arrived = (\<lambda>i. 0), mic_raise = False \<rparr> example_ready))) =
     Some \<lparr> level = 0, noise = 0 \<rparr> \<and>
   nullish (map_option noise (res_microphoneTest (ac_results (snd (runMicTest
     \<lparr> micVolumes = [], mic_arrived = (\<lambda>i. 0), mic_raise = False \<rparr> example_ready))))) 1
     < cfg_maxBackgroundNoise (ac_config (snd (runMicTest
         \<lparr> micVolumes = [], mic_arrived = (\<lambda>i. 0), mic_raise = False \<rparr> example_ready))) \<and>
   fst (runMicTest \<lparr> micVolumes = [], mic_arrived = (\<lambda>i. 0), mic_raise = True \<rparr>
         example_ready) = Inr \<lparr> level = 0, noise = 1 \<rparr>"
  using C10_empty_history
    [of example_ready "\<lparr> micVolumes = [], mic_arrived = (\<lambda>i. 0), mic_raise = False \<rparr>"]
  by (simp add: example_ready_fields collected_def default_config_def example_config_def
      nullish_def runMicTest_config)

subsection \<open>The sample-rate probe\<close>

lemma probe_rates_first:
  "\<forall>q \<in> set pre. \<not> honors f q \<Longrightarrow> honors f r \<Longrightarrow> probe_rates f (pre @ r # post) = Some r"
  by (induction pre) (auto split: probe_attempt.splits)

lemma probe_rates_Some:
  "probe_rates f rates = Some r \<Longrightarrow>
     \<exists>pre post. rates = pre @ r # post \<and> (\<forall>q \<in> set pre. \<not> honors f q) \<and> honors f r"
proof (induction rates)
  case Nil
  then show ?case by simp
next
  case (Cons a rates)
  show ?case
  proof (cases "honors f a")
    case True
    then have "a = r" using Cons.prems by (auto split: probe_attempt.splits)
    then have "a # rates = [] @ r # rates \<and> (\<forall>q \<in> set []. \<not> honors f q) \<and> honors f r"
      using True by auto
    then show ?thesis by blast
  next
    case False
    then have "probe_rates f rates = Some r"
      using Cons.prems by (auto split: probe_attempt.splits if_splits)
    then obtain pre post where
      "rates = pre @ r # post \<and> (\<forall>q \<in> set pre. \<not> honors f q) \<and> honors f r"
      using Cons.IH by blast
    then have "a # rates = (a # pre) @ r # post \<and> (\<forall>q \<in> set (a # pre). \<not> honors f q) \<and>
        honors f r"
      using False by simp
    then show ?thesis by blast
  qed
qed

text \<open>
  C6. The candidates are 96000, 88200, 48000, 44100, 24000, 22050, 16000 and 8000 Hz,
  tried in this order. A candidate is accepted exactly when its throwaway context
  reports a rate less than 1 Hz away from the request: the probe returns the first
  candidate of the list that is honoured, and a rate the loop returns is honoured and
  no candidate before it is. On a platform that honours 48000 and 16000 only, the
  probe returns 48000.
\<close>

theorem C6_probe_first_match:
  "testRates = [96000, 88200, 48000, 44100, 24000, 22050, 16000, 8000] \<and>
   (testRates = pre @ r # post \<and> (\<forall>q \<in> set pre. \<not> honors f q) \<and> honors f r \<longrightarrow>
      getMaxSupportedSampleRate f s = r) \<and>
   (probe_rates f testRates = Some r' \<longrightarrow>
      getMaxSupportedSampleRate f s = r' \<and>
      (\<exists>pre' post'. testRates = pre' @ r' # post' \<and> (\<forall>q \<in> set pre'. \<not> honors f q) \<and>
         honors f r')) \<and>
   ((\<forall>q \<in> set testRates. honors f q \<longleftrightarrow> (q = 48000 \<or> q = 16000)) \<longrightarrow>
      getMaxSupportedSampleRate f s = 48000)"
proof (intro conjI impI)
  show "testRates = [96000, 88200, 48000, 44100, 24000, 22050, 16000, 8000]"
    by (simp add: testRates_def)
next
  assume "testRates = pre @ r # post \<and> (\<forall>q \<in> set pre. \<not> honors f q) \<and> honors f r"
  then have "probe_rates f testRates = Some r"
    using probe_rates_first [of pre f r post] by simp
  then show "getMaxSupportedSampleRate f s = r"
    by (simp add: getMaxSupportedSampleRate_def)
next
  assume "probe_rates f testRates = Some r'"
  then show "getMaxSupportedSampleRate f s = r'"
    by (simp add: getMaxSupportedSampleRate_def)
next
  assume "probe_rates f testRates = Some r'"
  then show "\<exists>pre' post'. testRates = pre' @ r' # post' \<and> (\<forall>q \<in> set pre'. \<not> honors f q) \<and>
         honors f r'"
    by (rule probe_rates_Some)
next
  assume a: "\<forall>q \<in> set testRates. honors f q \<longleftrightarrow> (q = 48000 \<or> q = 16000)"
  have t: "testRates = [96000, 88200] @ 48000 # [44100, 24000, 22050, 16000, 8000]"
    by (simp add: testRates_def)
  have "\<forall>q \<in> set [96000, 88200 :: real]. \<not> honors f q"
    using a by (simp add: testRates_def)
  moreover have "honors f 48000"
    using a by (simp add: testRates_def)
  ultimately have "probe_rates f testRates = Some 48000"
    unfolding t by (rule probe_rates_first)
  then show "getMaxSupportedSampleRate f s = 48000"
    by (simp add: getMaxSupportedSampleRate_def)
qed

text \<open>
  The example platform realizes 95999 Hz for 96000 (rejected: off by 1 Hz), raises at
  88200, and realizes 48000.5 Hz for 48000 (accepted).
\<close>

theorem C6_probe_first_match_witness:
  "getMaxSupportedSampleRate example_new_context example_ready = 48000 \<and>
   probe_rates example_new_context testRates = Some 48000"
  using C6_probe_first_match
    [of "[96000, 88200]" 48000 "[44100, 24000, 22050, 16000, 8000]" example_new_context
        example_ready 48000]
  by (simp add: testRates_def example_new_context_def)

subsection \<open>Cleanup\<close>

text \<open>
  C9. \<open>cleanup\<close> has no raising path (the one call that may raise is caught), whatever
  state the harness is in. After it the six resource fields are cleared and the harness
  is not running; on the way the oscillator was stopped, the metering node and the
  source were disconnected, and every track of the held stream was stopped. A second
  \<open>cleanup\<close> right after makes no platform call and leaves the state as it is.
\<close>

theorem C9_cleanup_idempotent:
  "snd (cleanup b2 (snd (cleanup b1 s))) = snd (cleanup b1 s) \<and>
   fst (cleanup b2 (snd (cleanup b1 s))) = [] \<and>
   ac_oscillator (snd (cleanup b1 s)) = None \<and>
   ac_gainNode (snd (cleanup b1 s)) = None \<and>
   ac_volMeterWorklet (snd (cleanup b1 s)) = None \<and>
   ac_source (snd (cleanup b1 s)) = None \<and>
   ac_stream (snd (cleanup b1 s)) = None \<and>
   ac_audioContext (snd (cleanup b1 s)) = None \<and>
   \<not> ac_isRunning (snd (cleanup b1 s)) \<and>
   (\<forall>n. ac_oscillator s = Some n \<longrightarrow> Stop n \<in> set (fst (cleanup b1 s))) \<and>
   (\<forall>n. ac_volMeterWorklet s = Some n \<longrightarrow> Disconnect n \<in> set (fst (cleanup b1 s))) \<and>
   (\<forall>n. ac_source s = Some n \<longrightarrow> Disconnect n \<in> set (fst (cleanup b1 s))) \<and>
   (\<forall>tracks. ac_stream s = Some tracks \<longrightarrow>
      (\<forall>t \<in> set tracks. TrackStop t \<in> set (fst (cleanup b1 s))))"
  by (simp add: cleanup_def Let_def)

text \<open>Cleanup of the example harness while its test tone is playing, twice.\<close>

theorem C9_cleanup_idempotent_witness:
  "fst (cleanup False
         (example_ready\<lparr> ac_oscillator := Some Oscillator, ac_gainNode := Some Gain \<rparr>)) =
     [Stop Oscillator, Disconnect Oscillator, Disconnect Gain, Disconnect VolMeter,
      Disconnect MediaStreamSource, TrackStop 0] \<and>
   fst (cleanup False (snd (cleanup False
         (example_ready\<lparr> ac_oscillator := Some Oscillator, ac_gainNode := Some Gain \<rparr>)))) = [] \<and>
   ac_stream (snd (cleanup False
         (example_ready\<lparr> ac_oscillator := Some Oscillator, ac_gainNode := Some Gain \<rparr>))) = None"
  using C9_cleanup_idempotent
    [of False False "example_ready\<lparr> ac_oscillator := Some Oscillator, ac_gainNode := Some Gain \<rparr>"]
  by (simp add: cleanup_def Let_def example_ready_fields)

section \<open>Properties of the capture pipeline\<close>

lemmas recorder_defs =
  run_def start_def stop_def resume_def continue_start_def suspend_def resolve_def
  reject_def clear_starting_def set_pstate_def then_handleStop_def handleStop_def
  stop_tracks_def new_world_def new_AudioRecorder_def Let_def

text \<open>
  When the acquisition completes, a \<open>stop\<close> called while it was in flight is carried
  out: the stream's track is stopped and the stream field is cleared.
\<close>

lemma stop_in_flight_completed:
  "run [CallStart, CallStop, Resume 0 True, Resume 0 True, Resume 0 True, Resume 0 True]
     (new_world True) =
     \<lparr> w_recorder =
         \<lparr> rec_stream = None, rec_audioContext = Some (), rec_source = Some 0,
           rec_recording = False, rec_recordingWorklet = None, rec_vuWorklet = None,
           rec_starting = None \<rparr>,
       w_promises = [\<lparr> p_state = Fulfilled, p_then = 1 \<rparr>], w_suspended = [],
       w_mediaDevices = True, w_requests = 1, w_opens = 1, w_closes = 1, w_live = [] \<rparr>"
  by (simp add: recorder_defs)

text \<open>
  C7, at the input where the code departs from it. \<open>start\<close> is called, \<open>stop\<close> is
  called while the acquisition is in flight, the device hands out a stream, the audio
  context opens, and then loading the recorder worklet module fails. The promise is
  rejected, the \<open>handleStop\<close> that \<open>stop\<close> registered never runs, and the acquisition
  has settled with the stream still held and its track still live: one open, no close.
\<close>

theorem C7_stop_in_flight_failed:
  "run [CallStart, CallStop, Resume 0 True, Resume 0 True, Resume 0 False] (new_world True) =
     \<lparr> w_recorder =
         \<lparr> rec_stream = Some 0, rec_audioContext = Some (), rec_source = Some 0,
           rec_recording = False, rec_recordingWorklet = None, rec_vuWorklet = None,
           rec_starting = None \<rparr>,
       w_promises = [\<lparr> p_state = Rejected, p_then = 1 \<rparr>], w_suspended = [],
       w_mediaDevices = True, w_requests = 1, w_opens = 1, w_closes = 0, w_live = [0] \<rparr>"
  by (simp add: recorder_defs)

theorem C7_stop_in_flight_failed_witness:
  "w_suspended (run [CallStart, CallStop, Resume 0 True, Resume 0 True, Resume 0 False]
     (new_world True)) = [] \<and>
   w_opens (run [CallStart, CallStop, Resume 0 True, Resume 0 True, Resume 0 False]
     (new_world True)) = 1 \<and>
   w_closes (run [CallStart, CallStop, Resume 0 True, Resume 0 True, Resume 0 False]
     (new_world True)) = 0 \<and>
   rec_stream (w_recorder (run [CallStart, CallStop, Resume 0 True, Resume 0 True, Resume 0 False]
     (new_world True))) = Some 0"
  using C7_stop_in_flight_failed by simp

text \<open>
  C8, as the code has it. \<open>start\<close> has no guard against an attempt in flight: where
  media capture is available, every call creates a promise of its own, sends a device
  request of its own and suspends an executor of its own beside those already
  suspended, and \<open>this.starting\<close> is overwritten with the new promise.
\<close>

theorem C8_start_not_guarded:
  "w_mediaDevices w \<longrightarrow>
     w_requests (start w) = Suc (w_requests w) \<and>
     w_promises (start w) = w_promises w @ [\<lparr> p_state = Pending, p_then = 0 \<rparr>] \<and>
     w_suspended (start w) = w_suspended w @ [(length (w_promises w), AwaitUserMedia)] \<and>
     rec_starting (w_recorder (start w)) = Some (length (w_promises w))"
  by (simp add: start_def Let_def)

theorem C8_start_not_guarded_witness:
  "w_requests (start (start (new_world True))) = 2 \<and>
   w_suspended (start (start (new_world True))) = [(0, AwaitUserMedia), (1, AwaitUserMedia)] \<and>
   rec_starting (w_recorder (start (start (new_world True)))) = Some 1"
  using C8_start_not_guarded [of "start (new_world True)"]
  by (simp add: start_def new_world_def new_AudioRecorder_def Let_def)

text \<open>
  The claim as the specification states it fails: a second \<open>start\<close> while the first is
  in flight does not observe the first attempt (\<open>this.starting\<close> changes from promise 0
  to promise 1), the device is asked twice, and it hands out two streams.
\<close>

theorem C8_single_flight_counterexample:
  "w_suspended (run [CallStart] (new_world True)) = [(0, AwaitUserMedia)] \<and>
   rec_starting (w_recorder (run [CallStart] (new_world True))) = Some 0 \<and>
   rec_starting (w_recorder (run [CallStart, CallStart] (new_world True))) = Some 1 \<and>
   w_requests (run [CallStart, CallStart] (new_world True)) = 2 \<and>
   w_opens (run [CallStart, CallStart, Resume 0 True, Resume 1 True] (new_world True)) = 2 \<and>
   w_live (run [CallStart, CallStart, Resume 0 True, Resume 1 True] (new_world True)) = [0, 1]"
  by (simp add: recorder_defs)

end
